theory Spec2Isabelle
  imports Complex_Main "HOL-Library.List_Lexorder" "HOL-Library.Char_ord"
begin

section \<open>Numbers, dates and errors\<close>

text \<open>
  The embedding follows \<^verbatim>\<open>trading-research/enhanced_researcher.py\<close>.
  Python and numpy floats are modelled as exact reals: the thresholds, sums and formulas
  of the source are kept, binary floating-point error is not modelled. Python's unbounded
  integers are \<open>int\<close>. A date (\<^verbatim>\<open>datetime.date\<close>, or a \<^verbatim>\<open>"%Y-%m-%d"\<close> string that denotes
  one) is the number of its day, so that \<^verbatim>\<open>(a - b).days\<close> is \<open>a - b\<close>.
  An exception is a value \<open>Inl e\<close> of a sum type; \<open>None\<close> is Python's \<^verbatim>\<open>None\<close>.
\<close>

datatype py_error = TypeError | ProviderError

type_synonym date = int

text \<open>
  \<^verbatim>\<open>round(x)\<close> and \<^verbatim>\<open>round(x, n)\<close> round to the nearest value, a tie going to the even
  neighbour. The model rounds the exact real. The source rounds a binary double: where the
  exact value lies on or next to a tie, the double may lie on the other side and the
  source's result may be the other neighbour. What holds of both is that the result has
  \<open>n\<close> decimals and lies within half a unit of the last decimal of the value.
\<close>

definition round_half_even :: "real \<Rightarrow> int" where
  "round_half_even x =
     (let f = \<lfloor>x\<rfloor>; d = x - of_int f
      in if d < 1 / 2 then f else if 1 / 2 < d then f + 1 else if even f then f else f + 1)"

definition py_round :: "real \<Rightarrow> nat \<Rightarrow> real" where
  "py_round x n = of_int (round_half_even (x * 10 ^ n)) / 10 ^ n"

text \<open>\<^verbatim>\<open>int(x)\<close> on a float truncates towards zero.\<close>

definition py_int :: "real \<Rightarrow> int" where
  "py_int x = (if 0 \<le> x then \<lfloor>x\<rfloor> else \<lceil>x\<rceil>)"

text \<open>\<^verbatim>\<open>xs[:m]\<close>: a negative bound counts from the end.\<close>

definition py_slice_to :: "'a list \<Rightarrow> int \<Rightarrow> 'a list" where
  "py_slice_to xs m = (if 0 \<le> m then take (nat m) xs else take (nat (int (length xs) + m)) xs)"

definition mean :: "real list \<Rightarrow> real" where
  "mean xs = sum_list xs / real (length xs)"

text \<open>\<^verbatim>\<open>s.tail(n)\<close>: the last \<open>n\<close> rows.\<close>

definition tail :: "nat \<Rightarrow> 'a list \<Rightarrow> 'a list" where
  "tail n xs = drop (length xs - n) xs"

section \<open>Data model\<close>

datatype trend = Bullish | Bearish | Neutral

datatype direction = CALL | PUT | STRADDLE

text \<open>
  The value under \<^verbatim>\<open>"summary"\<close> of a sentiment dictionary: the key may be missing, hold
  \<^verbatim>\<open>None\<close> (as in the default sentiment) or hold a string.
\<close>

datatype summary = NoSummaryKey | NullSummary | Summary string

record sentiment =
  sent_score :: real
  sent_summary :: summary
  confidence :: string

text \<open>
  A reason is one of the source's f-strings, kept as its emoji and the values it formats
  (the number formatting itself is not modelled):
  \<^verbatim>\<open>"{Zap|Calendar} Earnings in {d}d"\<close>, \<^verbatim>\<open>"Calendar Earnings today"\<close>,
  \<^verbatim>\<open>"BarChart Volume {v:.1f}x"\<close>, \<^verbatim>\<open>"{Rocket|ChartUp|ChartDown} {abs m:.1f}% move"\<close>,
  \<^verbatim>\<open>"Fire Overbought RSI {r:.0f}"\<close>, \<^verbatim>\<open>"Gem Oversold RSI {r:.0f}"\<close>,
  \<^verbatim>\<open>"Thermometer High IV {iv:.0f}%"\<close>, \<^verbatim>\<open>"MoneyBag Low IV {iv:.0f}%"\<close>,
  \<^verbatim>\<open>"Check Affordable options"\<close>, \<^verbatim>\<open>"{Green|Red} AI: {summary[:30]}"\<close> and
  \<^verbatim>\<open>"{Green|Red} AI sentiment"\<close>.
\<close>

datatype emoji = Zap | Calendar | Rocket | ChartUp | ChartDown | Green | Red

datatype reason =
    EarningsIn emoji int
  | EarningsToday
  | VolumeX real
  | PctMove emoji real
  | OverboughtRSI real
  | OversoldRSI real
  | HighIV real
  | LowIV real
  | AffordableOptions
  | AISummary emoji string
  | AISentiment emoji

record suggestion =
  sug_strike :: real
  premium :: real
  sug_iv :: real
  sug_volume :: int
  oi :: int
  break_even :: real

record options_snapshot =
  expiration :: date
  dte :: int
  iv_avg :: real
  expected_move_pct :: real
  expected_move_dollars :: real
  call_suggestion :: "suggestion option"
  put_suggestion :: "suggestion option"
  atm_call_price :: "real option"
  atm_put_price :: "real option"

record news_item =
  title :: string
  publisher :: string
  link :: string

record entry_exit =
  ee_direction :: direction
  stock_entry :: real
  stock_target :: real
  stock_stop :: real
  option_entry :: string
  option_target :: string
  option_stop :: string

text \<open>
  The expiry text: \<^verbatim>\<open>"Through earnings ({earnings_date})"\<close>,
  \<^verbatim>\<open>"{expiration} ({dte} DTE)"\<close> or \<^verbatim>\<open>"1-2 weeks out"\<close>.
\<close>

datatype expiry = ThroughEarnings "string option" | AtExpiration date int | OneToTwoWeeks

record trade_idea =
  direction :: direction
  bias :: trend
  expiry :: expiry
  ti_reasons :: "reason list"
  entry_exit :: entry_exit
  suggested_option :: "suggestion option"

text \<open>
  The dictionary \<^verbatim>\<open>data\<close> that \<^verbatim>\<open>get_stock_data\<close> returns and \<^verbatim>\<open>run_research\<close> extends.
  Every key of the returned dictionary is a field; \<open>rsi\<close>, \<open>earnings_date\<close>,
  \<open>days_to_earnings\<close> and \<open>options\<close> hold \<open>None\<close> where the dictionary holds \<^verbatim>\<open>None\<close>.
  The keys \<^verbatim>\<open>score\<close>, \<^verbatim>\<open>reasons\<close> and \<^verbatim>\<open>trade_idea\<close> are missing until \<^verbatim>\<open>run_research\<close>
  sets them: there \<open>None\<close> is a missing key.
\<close>

record ticker_data =
  ticker :: string
  price :: real
  change_pct :: real
  volume :: int
  vol_surge :: real
  momentum_5d :: real
  rsi :: "real option"
  trend :: trend
  support :: real
  resistance :: real
  earnings_date :: "string option"
  days_to_earnings :: "int option"
  options :: "options_snapshot option"
  news :: "news_item list"
  ai_sentiment :: sentiment
  score :: "real option"
  reasons :: "reason list option"
  trade_idea :: "trade_idea option"

text \<open>
  The configuration dictionary; \<open>None\<close> is a missing key, for which
  \<^verbatim>\<open>config.get(key, default)\<close> gives the default.
\<close>

record config =
  max_stock_price :: "real option"
  max_option_premium :: "real option"
  min_score :: "real option"
  use_ai_sentiment :: "bool option"
  ai_top_n :: "int option"

section \<open>Scorer: \<^verbatim>\<open>score_opportunity\<close>\<close>

text \<open>
  The function threads \<^verbatim>\<open>score\<close> and \<^verbatim>\<open>reasons\<close> through seven blocks; each block is
  a step on the pair, in the order of the source.
\<close>

type_synonym tally = "real \<times> reason list"

definition earnings_catalyst :: "ticker_data \<Rightarrow> tally \<Rightarrow> tally" where
  "earnings_catalyst d acc =
     (case days_to_earnings d of
        None \<Rightarrow> acc
      | Some n \<Rightarrow>
          if 1 \<le> n \<and> n \<le> 3 then (fst acc + 3, snd acc @ [EarningsIn Zap n])
          else if 4 \<le> n \<and> n \<le> 7 then (fst acc + 2, snd acc @ [EarningsIn Calendar n])
          else if n = 0 then (fst acc + 1, snd acc @ [EarningsToday])
          else acc)"

definition volume_surge :: "ticker_data \<Rightarrow> tally \<Rightarrow> tally" where
  "volume_surge d acc =
     (if 2 \<le> vol_surge d then (fst acc + 2, snd acc @ [VolumeX (vol_surge d)])
      else if 1.5 \<le> vol_surge d then (fst acc + 1, snd acc @ [VolumeX (vol_surge d)])
      else acc)"

definition momentum_move :: "ticker_data \<Rightarrow> tally \<Rightarrow> tally" where
  "momentum_move d acc =
     (let m = momentum_5d d in
      if 10 \<le> \<bar>m\<bar> then
        (fst acc + 2, snd acc @ [PctMove (if 0 < m then Rocket else ChartDown) \<bar>m\<bar>])
      else if 5 \<le> \<bar>m\<bar> then
        (fst acc + 1, snd acc @ [PctMove (if 0 < m then ChartUp else ChartDown) \<bar>m\<bar>])
      else acc)"

text \<open>\<^verbatim>\<open>if rsi:\<close> is false for \<^verbatim>\<open>None\<close> and for \<^verbatim>\<open>0.0\<close>.\<close>

definition truthy :: "real option \<Rightarrow> bool" where
  "truthy v = (case v of None \<Rightarrow> False | Some x \<Rightarrow> x \<noteq> 0)"

definition rsi_extremes :: "ticker_data \<Rightarrow> tally \<Rightarrow> tally" where
  "rsi_extremes d acc =
     (if truthy (rsi d) then
        (let r = the (rsi d) in
         if 70 \<le> r then (fst acc + 1, snd acc @ [OverboughtRSI r])
         else if r \<le> 30 then (fst acc + 1.5, snd acc @ [OversoldRSI r])
         else acc)
      else acc)"

definition options_iv :: "ticker_data \<Rightarrow> tally \<Rightarrow> tally" where
  "options_iv d acc =
     (case options d of
        None \<Rightarrow> acc
      | Some opt \<Rightarrow>
          (let iv = iv_avg opt;
               acc1 = (if 80 \<le> iv then (fst acc + 1, snd acc @ [HighIV iv])
                       else if iv \<le> 30 \<and> 0 < iv then (fst acc + 1.5, snd acc @ [LowIV iv])
                       else acc)
           in if call_suggestion opt \<noteq> None \<or> put_suggestion opt \<noteq> None
              then (fst acc1 + 0.5, snd acc1 @ [AffordableOptions])
              else acc1))"

text \<open>
  \<^verbatim>\<open>ai_sent.get('summary', 'Strong signal')[:30]\<close> raises a type error when the key holds
  \<^verbatim>\<open>None\<close>.
\<close>

definition ai_sentiment_rule :: "ticker_data \<Rightarrow> tally \<Rightarrow> py_error + tally" where
  "ai_sentiment_rule d acc =
     (let ai_sent = ai_sentiment d; ai_score = sent_score ai_sent;
          e = (if 0 < ai_score then Green else Red)
      in if 3 \<le> \<bar>ai_score\<bar> then
           (case sent_summary ai_sent of
              NullSummary \<Rightarrow> Inl TypeError
            | NoSummaryKey \<Rightarrow>
                Inr (fst acc + 1.5, snd acc @ [AISummary e (take 30 ''Strong signal'')])
            | Summary s \<Rightarrow> Inr (fst acc + 1.5, snd acc @ [AISummary e (take 30 s)]))
         else if 2 \<le> \<bar>ai_score\<bar> then Inr (fst acc + 1, snd acc @ [AISentiment e])
         else Inr acc)"

definition score_opportunity :: "ticker_data \<Rightarrow> config \<Rightarrow> py_error + tally" where
  "score_opportunity d cfg =
     ai_sentiment_rule d
       (options_iv d (rsi_extremes d (momentum_move d (volume_surge d
          (earnings_catalyst d (0, []))))))"

section \<open>Trade-idea generator\<close>

text \<open>
  \<^verbatim>\<open>calculate_entry_exit\<close> reads the direction from \<^verbatim>\<open>data["trade_idea"]\<close>, with
  \<^verbatim>\<open>"CALL"\<close> when the key is missing. \<^verbatim>\<open>data.get("rsi", 50)\<close> is the stored value, also
  when that is \<^verbatim>\<open>None\<close>: comparing \<^verbatim>\<open>None\<close> with 50 raises a type error.
\<close>

definition calculate_entry_exit :: "ticker_data \<Rightarrow> options_snapshot option \<Rightarrow> py_error + entry_exit" where
  "calculate_entry_exit d opts =
     (let p = price d;
          expected_move = (case opts of None \<Rightarrow> 5 | Some opt \<Rightarrow> expected_move_pct opt);
          dir = (case trade_idea d of None \<Rightarrow> CALL | Some ti \<Rightarrow> direction ti);
          result = (\<lambda>e t s. \<lparr>ee_direction = dir, stock_entry = e, stock_target = t,
                      stock_stop = s, option_entry = ''At or below suggested premium'',
                      option_target = ''50-100% gain on premium'',
                      option_stop = ''50% loss on premium''\<rparr>)
      in case dir of
           CALL \<Rightarrow>
             (case rsi d of
                None \<Rightarrow> Inl TypeError
              | Some r \<Rightarrow>
                  (let entry_pct = (if 50 < r then - 1.5 else - 0.5);
                       exit_pct = expected_move * 0.7;
                       stop_pct = - expected_move * 0.5
                   in Inr (result (py_round (p * (1 + entry_pct / 100)) 2)
                                  (py_round (p * (1 + exit_pct / 100)) 2)
                                  (py_round (p * (1 + stop_pct / 100)) 2))))
         | PUT \<Rightarrow>
             (case rsi d of
                None \<Rightarrow> Inl TypeError
              | Some r \<Rightarrow>
                  (let entry_pct = (if r < 50 then 1.5 else 0.5);
                       exit_pct = - expected_move * 0.7;
                       stop_pct = expected_move * 0.5
                   in Inr (result (py_round (p * (1 + entry_pct / 100)) 2)
                                  (py_round (p * (1 + exit_pct / 100)) 2)
                                  (py_round (p * (1 + stop_pct / 100)) 2))))
         | STRADDLE \<Rightarrow>
             Inr (result p (py_round (p * (1 + expected_move / 100)) 2)
                           (py_round (p * (1 - expected_move / 200)) 2)))"

text \<open>The four votes of \<^verbatim>\<open>generate_trade_idea\<close>, as the pair (bullish, bearish).\<close>

definition signals :: "ticker_data \<Rightarrow> nat \<times> nat" where
  "signals d =
     (let momentum = momentum_5d d; ai_score = sent_score (ai_sentiment d);
          v1 = (if 3 < momentum then (1, 0) else if momentum < - 3 then (0, 1) else (0, 0));
          v2 = (if trend d = Bullish then (fst v1 + 1, snd v1)
                else if trend d = Bearish then (fst v1, snd v1 + 1) else v1);
          v3 = (if 0 < ai_score then (fst v2 + 1, snd v2)
                else if ai_score < 0 then (fst v2, snd v2 + 1) else v2)
      in if truthy (rsi d) \<and> the (rsi d) < 35 then (fst v3 + 1, snd v3)
         else if truthy (rsi d) \<and> 65 < the (rsi d) then (fst v3, snd v3 + 1)
         else v3)"

definition generate_trade_idea :: "ticker_data \<Rightarrow> real \<Rightarrow> reason list \<Rightarrow> py_error + trade_idea" where
  "generate_trade_idea d sc rs =
     (let bullish_signals = fst (signals d); bearish_signals = snd (signals d);
          dir = (if bearish_signals < bullish_signals then CALL
                 else if bullish_signals < bearish_signals then PUT else STRADDLE);
          b = (if bearish_signals < bullish_signals then Bullish
               else if bullish_signals < bearish_signals then Bearish else Neutral);
          ex = (case days_to_earnings d of
                  Some n \<Rightarrow>
                    if n \<noteq> 0 \<and> 1 \<le> n \<and> n \<le> 7 then ThroughEarnings (earnings_date d)
                    else (case options d of
                            Some opt \<Rightarrow> AtExpiration (expiration opt) (dte opt)
                          | None \<Rightarrow> OneToTwoWeeks)
                | None \<Rightarrow>
                    (case options d of
                       Some opt \<Rightarrow> AtExpiration (expiration opt) (dte opt)
                     | None \<Rightarrow> OneToTwoWeeks))
      in case calculate_entry_exit d (options d) of
           Inl e \<Rightarrow> Inl e
         | Inr ee \<Rightarrow>
             Inr \<lparr>direction = dir, bias = b, expiry = ex, ti_reasons = rs, entry_exit = ee,
                  suggested_option =
                    (case options d of
                       None \<Rightarrow> None
                     | Some opt \<Rightarrow>
                         if dir = CALL then call_suggestion opt else put_suggestion opt)\<rparr>)"

section \<open>Signal extractor\<close>

text \<open>
  The market-data provider is outside the program: \<^verbatim>\<open>yf.Ticker(ticker)\<close> is a record of
  what its attributes return. A fetch that raises is \<open>Inl\<close>. A row of the history frame
  is a \<open>bar\<close>, a row of a calls or puts table a \<open>chain_row\<close> (a \<^verbatim>\<open>NaN\<close> volume or open
  interest is \<open>None\<close>). \<open>calendar_earnings_date\<close> is the date string that the source reads
  from the calendar and \<open>calendar_days_to_earnings\<close> the number it computes from it,
  \<^verbatim>\<open>(pd.to_datetime(earnings_date) - pd.Timestamp.now()).days\<close>: the whole days from now to
  the midnight that starts the earnings date, rounded down, so 0 for earnings tomorrow and
  \<open>-1\<close> for earnings today. Both are \<open>None\<close> when the best-effort lookup fails.
\<close>

record bar =
  Close :: real
  High :: real
  Low :: real
  Volume :: real

record chain_row =
  strike :: real
  lastPrice :: real
  impliedVolatility :: real
  row_volume :: "real option"
  openInterest :: "real option"

record option_chain =
  calls :: "chain_row list"
  puts :: "chain_row list"

record stock =
  history :: "py_error + bar list"
  calendar_earnings_date :: "string option"
  calendar_days_to_earnings :: "int option"
  options_dates :: "py_error + date list"
  chain_at :: "date \<Rightarrow> py_error + option_chain"
  stock_news :: "news_item list"

text \<open>
  The loop over \<^verbatim>\<open>options_dates[:5]\<close>: the pair is (\<^verbatim>\<open>nearest_exp\<close>, \<^verbatim>\<open>weekly_exp\<close>).
\<close>

fun pick_expirations :: "date \<Rightarrow> date list \<Rightarrow> date option \<times> date option \<Rightarrow> date option \<times> date option" where
  "pick_expirations today [] acc = acc"
| "pick_expirations today (e # es) acc =
     (let days_out = e - today in
      if 1 \<le> days_out then
        pick_expirations today es
          (if fst acc = None then Some e else fst acc,
           if 5 \<le> days_out \<and> days_out \<le> 10 \<and> snd acc = None then Some e else snd acc)
      else pick_expirations today es acc)"

definition target_expiration :: "date \<Rightarrow> date list \<Rightarrow> date option" where
  "target_expiration today ds =
     (case pick_expirations today (take 5 ds) (None, None) of
        (nearest_exp, weekly_exp) \<Rightarrow>
          (case weekly_exp of Some w \<Rightarrow> Some w | None \<Rightarrow> nearest_exp))"

text \<open>
  \<^verbatim>\<open>tbl.iloc[(tbl['strike'] - atm_strike).abs().argsort()[:1]]\<close>: the first row of the
  table ordered by distance to the at-the-money strike. The source's \<^verbatim>\<open>argsort\<close> is not
  stable: among rows at the same distance it may pick any one. The model picks the first
  in table order; the properties below only use that the picked row is a nearest one.
\<close>

definition atm_row :: "real \<Rightarrow> chain_row list \<Rightarrow> chain_row option" where
  "atm_row atm_strike tbl =
     (case sort_key (\<lambda>r. \<bar>strike r - atm_strike\<bar>) tbl of [] \<Rightarrow> None | r # _ \<Rightarrow> Some r)"

definition notna_int :: "real option \<Rightarrow> int" where
  "notna_int v = (case v of None \<Rightarrow> 0 | Some x \<Rightarrow> py_int x)"

definition call_suggestion_of :: "real \<Rightarrow> real \<Rightarrow> chain_row list \<Rightarrow> suggestion option" where
  "call_suggestion_of p max_premium tbl =
     (let affordable_calls = sort_key strike (filter (\<lambda>r. lastPrice r \<le> max_premium) tbl);
          otm_calls = filter (\<lambda>r. p \<le> strike r) affordable_calls
      in case otm_calls of
           [] \<Rightarrow> None
         | best_call # _ \<Rightarrow>
             Some \<lparr>sug_strike = strike best_call,
                   premium = py_round (lastPrice best_call) 2,
                   sug_iv = py_round (impliedVolatility best_call * 100) 1,
                   sug_volume = notna_int (row_volume best_call),
                   oi = notna_int (openInterest best_call),
                   break_even = py_round (strike best_call + lastPrice best_call) 2\<rparr>)"

definition put_suggestion_of :: "real \<Rightarrow> real \<Rightarrow> chain_row list \<Rightarrow> suggestion option" where
  "put_suggestion_of p max_premium tbl =
     (let affordable_puts =
            sort_key (\<lambda>r. - strike r) (filter (\<lambda>r. lastPrice r \<le> max_premium) tbl);
          otm_puts = filter (\<lambda>r. strike r \<le> p) affordable_puts
      in case otm_puts of
           [] \<Rightarrow> None
         | best_put # _ \<Rightarrow>
             Some \<lparr>sug_strike = strike best_put,
                   premium = py_round (lastPrice best_put) 2,
                   sug_iv = py_round (impliedVolatility best_put * 100) 1,
                   sug_volume = notna_int (row_volume best_put),
                   oi = notna_int (openInterest best_put),
                   break_even = py_round (strike best_put - lastPrice best_put) 2\<rparr>)"

text \<open>
  \<^verbatim>\<open>get_options_data\<close>: every exception inside is caught and gives \<^verbatim>\<open>None\<close>. The unrounded
  \<^verbatim>\<open>avg_iv\<close>, \<^verbatim>\<open>expected_move_pct\<close> and \<^verbatim>\<open>expected_move_dollars\<close> are functions of their own.
\<close>

definition avg_iv :: "real \<Rightarrow> option_chain \<Rightarrow> real" where
  "avg_iv p ch =
     (let atm_strike = real_of_int (round_half_even p);
          call_iv = (case atm_row atm_strike (calls ch) of
                       None \<Rightarrow> 0 | Some r \<Rightarrow> impliedVolatility r);
          put_iv = (case atm_row atm_strike (puts ch) of
                      None \<Rightarrow> 0 | Some r \<Rightarrow> impliedVolatility r)
      in (call_iv + put_iv) / 2)"

definition raw_expected_move_pct :: "real \<Rightarrow> option_chain \<Rightarrow> int \<Rightarrow> real" where
  "raw_expected_move_pct p ch days = avg_iv p ch * sqrt (real_of_int days / 365) * 100"

definition raw_expected_move_dollars :: "real \<Rightarrow> option_chain \<Rightarrow> int \<Rightarrow> real" where
  "raw_expected_move_dollars p ch days = p * (raw_expected_move_pct p ch days / 100)"

definition get_options_data :: "date \<Rightarrow> stock \<Rightarrow> real \<Rightarrow> config \<Rightarrow> options_snapshot option" where
  "get_options_data today stk p cfg =
     (case options_dates stk of
        Inl e \<Rightarrow> None
      | Inr ds \<Rightarrow>
          if ds = [] then None
          else (case target_expiration today ds of
                  None \<Rightarrow> None
                | Some target_exp \<Rightarrow>
                    (case chain_at stk target_exp of
                       Inl e \<Rightarrow> None
                     | Inr ch \<Rightarrow>
                         if calls ch = [] \<or> puts ch = [] then None
                         else
                           (let atm_strike = real_of_int (round_half_even p);
                                call_atm = atm_row atm_strike (calls ch);
                                put_atm = atm_row atm_strike (puts ch);
                                days = target_exp - today;
                                max_premium = (case max_option_premium cfg of
                                                 None \<Rightarrow> 2 | Some m \<Rightarrow> m)
                            in Some \<lparr>expiration = target_exp,
                                     dte = days,
                                     iv_avg = py_round (avg_iv p ch * 100) 1,
                                     expected_move_pct =
                                       py_round (raw_expected_move_pct p ch days) 1,
                                     expected_move_dollars =
                                       py_round (raw_expected_move_dollars p ch days) 2,
                                     call_suggestion =
                                       call_suggestion_of p max_premium (calls ch),
                                     put_suggestion =
                                       put_suggestion_of p max_premium (puts ch),
                                     atm_call_price =
                                       map_option (\<lambda>r. py_round (lastPrice r) 2) call_atm,
                                     atm_put_price =
                                       map_option (\<lambda>r. py_round (lastPrice r) 2) put_atm\<rparr>))))"

text \<open>
  \<^verbatim>\<open>calculate_rsi\<close>: the last value of the 14-row rolling means of the gains and of the
  losses. A zero mean loss divides by zero: with a positive mean gain the float result is
  \<^verbatim>\<open>inf\<close> and the index 100, with a zero mean gain it is \<^verbatim>\<open>NaN\<close> and the function
  returns \<^verbatim>\<open>None\<close>.
\<close>

fun diff :: "real list \<Rightarrow> real list" where
  "diff (x # y # ys) = (y - x) # diff (y # ys)"
| "diff _ = []"

definition calculate_rsi :: "real list \<Rightarrow> real option" where
  "calculate_rsi prices =
     (if length prices < 14 + 1 then None
      else
        (let delta = tail 14 (diff prices);
             gain = mean (map (\<lambda>x. if 0 < x then x else 0) delta);
             loss = mean (map (\<lambda>x. - (if x < 0 then x else 0)) delta)
         in if loss = 0 then (if gain = 0 then None else Some 100)
            else Some (100 - 100 / (1 + gain / loss))))"

definition minimum :: "real list \<Rightarrow> real" where
  "minimum xs = fold min (tl xs) (hd xs)"

definition maximum :: "real list \<Rightarrow> real" where
  "maximum xs = fold max (tl xs) (hd xs)"

definition default_sentiment :: sentiment where
  "default_sentiment = \<lparr>sent_score = 0, sent_summary = NullSummary, confidence = ''pending''\<rparr>"

text \<open>
  \<^verbatim>\<open>get_stock_data\<close>. The history has at least five rows where \<open>last\<close>, \<open>!\<close> and the means
  are read. Every exception is caught and gives \<^verbatim>\<open>None\<close>.
\<close>

definition get_stock_data :: "(string \<Rightarrow> stock) \<Rightarrow> date \<Rightarrow> string \<Rightarrow> config \<Rightarrow> ticker_data option" where
  "get_stock_data market today tk cfg =
     (let stk = market tk in
      case history stk of
        Inl e \<Rightarrow> None
      | Inr hist \<Rightarrow>
          if hist = [] \<or> length hist < 5 then None
          else
            (let current = last hist;
                 prev = hist ! (length hist - 2);
                 p = Close current
             in if (case max_stock_price cfg of None \<Rightarrow> 50 | Some m \<Rightarrow> m) < p then None
                else
                  (let change = ((p - Close prev) / Close prev) * 100;
                       avg_volume = mean (map Volume hist);
                       surge = (if 0 < avg_volume then Volume current / avg_volume else 1);
                       price_5d_ago = Close (hist ! (length hist - 5));
                       momentum = ((p - price_5d_ago) / price_5d_ago) * 100;
                       r = calculate_rsi (map Close hist);
                       sma_10 = mean (tail 10 (map Close hist));
                       sma_20 = (if 20 \<le> length hist then mean (tail 20 (map Close hist))
                                 else sma_10);
                       tr = (if sma_10 < p \<and> sma_20 < sma_10 then Bullish
                             else if p < sma_10 \<and> sma_10 < sma_20 then Bearish
                             else Neutral);
                       recent_low = minimum (tail 10 (map Low hist));
                       recent_high = maximum (tail 10 (map High hist));
                       options_data = get_options_data today stk p cfg;
                       news_items = filter (\<lambda>n. title n \<noteq> []) (take 5 (stock_news stk))
                   in Some \<lparr>ticker = tk,
                            price = py_round p 2,
                            change_pct = py_round change 2,
                            volume = py_int (Volume current),
                            vol_surge = py_round surge 2,
                            momentum_5d = py_round momentum 2,
                            rsi = (if truthy r then Some (py_round (the r) 1) else None),
                            trend = tr,
                            support = py_round recent_low 2,
                            resistance = py_round recent_high 2,
                            earnings_date = calendar_earnings_date stk,
                            days_to_earnings = calendar_days_to_earnings stk,
                            options = options_data,
                            news = take 3 news_items,
                            ai_sentiment = default_sentiment,
                            score = None,
                            reasons = None,
                            trade_idea = None\<rparr>)))"

section \<open>Scan, enrichment and report: \<^verbatim>\<open>run_research\<close>\<close>

text \<open>
  One ticker of the scan loop. An exception of \<^verbatim>\<open>score_opportunity\<close> or
  \<^verbatim>\<open>generate_trade_idea\<close> is caught by the loop's handler, which prints it and appends
  nothing. (The optional \<^verbatim>\<open>discovery\<close> key of the \<^verbatim>\<open>ticker_discovery\<close> module is left
  out.)
\<close>

definition process_ticker :: "(string \<Rightarrow> stock) \<Rightarrow> date \<Rightarrow> config \<Rightarrow> string \<Rightarrow> ticker_data option" where
  "process_ticker market today cfg tk =
     (case get_stock_data market today tk cfg of
        None \<Rightarrow> None
      | Some d \<Rightarrow>
          (case score_opportunity d cfg of
             Inl e \<Rightarrow> None
           | Inr (sc, rs) \<Rightarrow>
               if (case min_score cfg of None \<Rightarrow> 0 | Some m \<Rightarrow> m) \<le> sc then
                 (let d1 = d\<lparr>score := Some sc, reasons := Some rs\<rparr> in
                  case generate_trade_idea d1 sc rs of
                    Inl e \<Rightarrow> None
                  | Inr ti \<Rightarrow> Some (d1\<lparr>trade_idea := Some ti\<rparr>))
               else None))"

text \<open>
  The batches of five run one after the other; inside a batch the source appends in the
  order in which the three workers finish. The model appends in the order of the
  universe.
\<close>

definition scan :: "(string \<Rightarrow> stock) \<Rightarrow> date \<Rightarrow> config \<Rightarrow> string list \<Rightarrow> ticker_data list" where
  "scan market today cfg universe = List.map_filter (process_ticker market today cfg) universe"

text \<open>
  \<^verbatim>\<open>results.sort(key=lambda x: x['score'], reverse=True)\<close>: stable, highest score first.
  Every element of \<^verbatim>\<open>results\<close> has the key.
\<close>

definition sort_by_score :: "ticker_data list \<Rightarrow> ticker_data list" where
  "sort_by_score results = sort_key (\<lambda>r. - the (score r)) results"

text \<open>
  The sentiment stage for one result; \<open>ai\<close> is \<^verbatim>\<open>get_ai_sentiment\<close> with \<^verbatim>\<open>force=True\<close>,
  which catches its own errors. No handler surrounds this stage: an exception ends
  \<^verbatim>\<open>run_research\<close>.
\<close>

definition enrich_result :: "(string \<Rightarrow> string list \<Rightarrow> sentiment) \<Rightarrow> ticker_data \<Rightarrow> py_error + ticker_data" where
  "enrich_result ai r =
     (let headlines = map title (filter (\<lambda>n. title n \<noteq> []) (news r)) in
      if headlines = [] then Inr r
      else
        (let s = ai (ticker r) headlines;
             r1 = r\<lparr>ai_sentiment := s\<rparr>;
             ai_score = sent_score s;
             e = (if 0 < ai_score then Green else Red);
             bump = (\<lambda>pts rsn. r1\<lparr>score := Some (the (score r1) + pts),
                                   reasons := Some (the (reasons r1) @ [rsn])\<rparr>);
             adjusted =
               (if 3 \<le> \<bar>ai_score\<bar> then
                  (case sent_summary s of
                     NullSummary \<Rightarrow> Inl TypeError
                   | NoSummaryKey \<Rightarrow> Inr (bump 1.5 (AISummary e (take 30 ''Strong signal'')))
                   | Summary t \<Rightarrow> Inr (bump 1.5 (AISummary e (take 30 t))))
                else if 2 \<le> \<bar>ai_score\<bar> then Inr (bump 1 (AISentiment e))
                else Inr r1)
         in case adjusted of
              Inl err \<Rightarrow> Inl err
            | Inr r2 \<Rightarrow>
                (case generate_trade_idea r2 (the (score r2)) (the (reasons r2)) of
                   Inl err \<Rightarrow> Inl err
                 | Inr ti \<Rightarrow> Inr (r2\<lparr>trade_idea := Some ti\<rparr>))))"

fun enrich_all :: "(string \<Rightarrow> string list \<Rightarrow> sentiment) \<Rightarrow> ticker_data list \<Rightarrow> py_error + ticker_data list" where
  "enrich_all ai [] = Inr []"
| "enrich_all ai (r # rs) =
     (case enrich_result ai r of
        Inl err \<Rightarrow> Inl err
      | Inr r' \<Rightarrow>
          (case enrich_all ai rs of
             Inl err \<Rightarrow> Inl err
           | Inr rs' \<Rightarrow> Inr (r' # rs')))"

definition ai_stage :: "bool \<Rightarrow> (string \<Rightarrow> string list \<Rightarrow> sentiment) \<Rightarrow> config \<Rightarrow> ticker_data list \<Rightarrow> py_error + ticker_data list" where
  "ai_stage openai_key ai cfg results =
     (if openai_key \<and> (case use_ai_sentiment cfg of None \<Rightarrow> True | Some b \<Rightarrow> b) then
        (let top_n_for_ai = (case ai_top_n cfg of None \<Rightarrow> 5 | Some n \<Rightarrow> n);
             top = py_slice_to results top_n_for_ai
         in case enrich_all ai top of
              Inl err \<Rightarrow> Inl err
            | Inr top' \<Rightarrow> Inr (sort_by_score (top' @ drop (length top) results)))
      else Inr results)"

text \<open>
  The three category lists. \<^verbatim>\<open>r.get('days_to_earnings') and ...\<close> and
  \<^verbatim>\<open>r.get('rsi') and ...\<close> are false for \<^verbatim>\<open>None\<close> and for zero; \<^verbatim>\<open>r not in earnings_plays\<close>
  compares dictionaries by value.
\<close>

definition earnings_plays :: "ticker_data list \<Rightarrow> ticker_data list" where
  "earnings_plays results =
     filter (\<lambda>r. case days_to_earnings r of
                   None \<Rightarrow> False
                 | Some n \<Rightarrow> n \<noteq> 0 \<and> 0 \<le> n \<and> n \<le> 7) results"

definition momentum_plays :: "ticker_data list \<Rightarrow> ticker_data list" where
  "momentum_plays results =
     filter (\<lambda>r. 5 \<le> \<bar>momentum_5d r\<bar> \<and> r \<notin> set (earnings_plays results)) results"

definition oversold_plays :: "ticker_data list \<Rightarrow> ticker_data list" where
  "oversold_plays results =
     filter (\<lambda>r. truthy (rsi r) \<and> the (rsi r) \<le> 35 \<and> r \<notin> set (earnings_plays results)) results"

record calendar_day =
  cal_date :: string
  is_today :: bool
  cal_earnings :: "(string \<times> real \<times> real) list"

text \<open>
  \<^verbatim>\<open>build_earnings_calendar\<close>; \<open>fmt\<close> is \<^verbatim>\<open>strftime("%Y-%m-%d")\<close>. The placeholder rows that
  \<^verbatim>\<open>run_research\<close> adds for the tickers outside \<^verbatim>\<open>results\<close> carry no earnings date and
  match no day. (The weekday label of a day is left out.)
\<close>

definition build_earnings_calendar :: "(date \<Rightarrow> string) \<Rightarrow> date \<Rightarrow> ticker_data list \<Rightarrow> calendar_day list" where
  "build_earnings_calendar fmt today results =
     map (\<lambda>i. \<lparr>cal_date = fmt (today + int i),
                is_today = (i = 0),
                cal_earnings =
                  map (\<lambda>r. (ticker r, price r, (case score r of None \<Rightarrow> 0 | Some sc \<Rightarrow> sc)))
                    (filter (\<lambda>r. earnings_date r = Some (fmt (today + int i))) results)\<rparr>)
       [0 ..< 7]"

record report_summary =
  total_scanned :: nat
  passed_filters :: nat
  opportunities_found :: nat
  earnings_upcoming :: nat
  oversold_count :: nat

record categories =
  cat_earnings_plays :: "ticker_data list"
  cat_momentum_plays :: "ticker_data list"
  cat_oversold_plays :: "ticker_data list"

record report =
  generated_at :: string
  report_summary :: report_summary
  top_picks :: "ticker_data list"
  categories :: categories
  earnings_calendar :: "calendar_day list"
  all_results :: "ticker_data list"

text \<open>
  What \<^verbatim>\<open>run_research\<close> reads from outside: the provider, the clock, the key and the
  sentiment call.
\<close>

record world =
  market :: "string \<Rightarrow> stock"
  today :: date
  now_iso :: string
  strftime :: "date \<Rightarrow> string"
  openai_key :: bool
  sentiment_call :: "string \<Rightarrow> string list \<Rightarrow> sentiment"

text \<open>
  The output document of \<^verbatim>\<open>run_research\<close> (its constant texts and the copy of the
  configuration are left out). The configuration comes from \<^verbatim>\<open>load_config\<close>.
\<close>

definition run_research :: "world \<Rightarrow> config \<Rightarrow> string list \<Rightarrow> py_error + report" where
  "run_research w cfg universe =
     (case ai_stage (openai_key w) (sentiment_call w) cfg
             (sort_by_score (scan (market w) (today w) cfg universe)) of
        Inl err \<Rightarrow> Inl err
      | Inr results \<Rightarrow>
          Inr \<lparr>generated_at = now_iso w,
               report_summary =
                 \<lparr>total_scanned = length universe,
                  passed_filters = length results,
                  opportunities_found = length (filter (\<lambda>r. 4 \<le> the (score r)) results),
                  earnings_upcoming = length (earnings_plays results),
                  oversold_count = length (oversold_plays results)\<rparr>,
               top_picks = take 10 results,
               categories =
                 \<lparr>cat_earnings_plays = take 5 (earnings_plays results),
                  cat_momentum_plays = take 5 (momentum_plays results),
                  cat_oversold_plays = take 5 (oversold_plays results)\<rparr>,
               earnings_calendar =
                 build_earnings_calendar (strftime w) (today w)
                   (filter (\<lambda>r. days_to_earnings r \<noteq> None) results),
               all_results = results\<rparr>)"

section \<open>Journal persister\<close>

text \<open>
  The title is \<^verbatim>\<open>"Scan: {opps} opportunities (4+) | Earnings: {earnings} | Oversold: {oversold}"\<close>
  and the summary \<^verbatim>\<open>"Scanned {scanned} tickers; {passed} passed filters."\<close>, kept as the
  numbers they format.
\<close>

datatype journal_title = ScanTitle int int int

datatype journal_summary = ScannedSummary int int

record pick =
  pick_ticker :: string
  pick_score :: "real option"
  pick_direction :: "direction option"
  ai_summary :: "string option"

record journal_entry =
  created_at :: string
  je_title :: journal_title
  je_summary :: journal_summary
  je_top_picks :: "pick list"
  ai_journal :: "string option"
  model :: "string option"

definition build_basic_research_journal_entry :: "string \<Rightarrow> report \<Rightarrow> journal_entry" where
  "build_basic_research_journal_entry now out =
     (let sm = report_summary out in
      \<lparr>created_at = (if generated_at out \<noteq> [] then generated_at out else now),
       je_title = ScanTitle (int (opportunities_found sm)) (int (earnings_upcoming sm))
                    (int (oversold_count sm)),
       je_summary = ScannedSummary (int (total_scanned sm)) (int (passed_filters sm)),
       je_top_picks =
         map (\<lambda>p. \<lparr>pick_ticker = ticker p,
                    pick_score = map_option (\<lambda>sc. py_round sc 1) (score p),
                    pick_direction = map_option direction (trade_idea p),
                    ai_summary = (case sent_summary (ai_sentiment p) of
                                    Summary t \<Rightarrow> Some t | _ \<Rightarrow> None)\<rparr>)
           (take 5 (top_picks out)),
       ai_journal = None,
       model = None\<rparr>)"

text \<open>
  What \<^verbatim>\<open>append_research_journal\<close> reads from outside. \<open>journal_note\<close> is the outcome of
  \<^verbatim>\<open>_openai_generate_json\<close>: an exception, \<^verbatim>\<open>None\<close> or a non-empty object (as its text).
  \<open>max_entries_env\<close> is \<^verbatim>\<open>RESEARCH_JOURNAL_MAX_ENTRIES\<close>: \<open>None\<close> when it is unset, empty
  or no integer (the default 30 stays), \<open>Some n\<close> when \<^verbatim>\<open>int\<close> reads it as \<open>n\<close>.
\<close>

record journal_world =
  jw_now :: string
  jw_openai_key :: bool
  jw_openai_model :: string
  journal_note :: "py_error + string option"
  max_entries_env :: "int option"

definition max_entries :: "journal_world \<Rightarrow> int" where
  "max_entries jw = (case max_entries_env jw of None \<Rightarrow> 30 | Some n \<Rightarrow> n)"

text \<open>The de-duplication on the timestamp: replace the head or insert in front.\<close>

definition dedupe_insert :: "journal_entry list \<Rightarrow> journal_entry \<Rightarrow> journal_entry list" where
  "dedupe_insert entries entry =
     (if entries \<noteq> [] \<and> created_at (hd entries) = created_at entry
      then entries[0 := entry]
      else entry # entries)"

text \<open>
  \<^verbatim>\<open>append_research_journal\<close>: the journal read from the file, and the journal written
  back. (The write replaces the file through a temporary file; a failing write is not
  modelled.)
\<close>

definition journal_entry_of :: "journal_world \<Rightarrow> report \<Rightarrow> config \<Rightarrow> journal_entry" where
  "journal_entry_of jw out cfg =
     (let basic = build_basic_research_journal_entry (jw_now jw) out in
      if jw_openai_key jw \<and> (case use_ai_sentiment cfg of None \<Rightarrow> True | Some b \<Rightarrow> b)
      then (case journal_note jw of
              Inr (Some note) \<Rightarrow>
                basic\<lparr>ai_journal := Some note, model := Some (jw_openai_model jw)\<rparr>
            | _ \<Rightarrow> basic)
      else basic)"

definition append_research_journal :: "journal_world \<Rightarrow> journal_entry list \<Rightarrow> report \<Rightarrow> config \<Rightarrow> journal_entry list" where
  "append_research_journal jw entries out cfg =
     py_slice_to (dedupe_insert entries (journal_entry_of jw out cfg)) (max_entries jw)"

text \<open>Several runs of the persister, one report after the other, oldest run first.\<close>

fun journal_runs :: "journal_entry list \<Rightarrow> (journal_world \<times> report \<times> config) list \<Rightarrow> journal_entry list" where
  "journal_runs entries [] = entries"
| "journal_runs entries ((jw, out, cfg) # runs) =
     journal_runs (append_research_journal jw entries out cfg) runs"

text \<open>
  Newest first: no entry is newer than an entry before it. The timestamps are ISO
  strings, whose order as strings is the order in time.
\<close>

definition newest_first :: "journal_entry list \<Rightarrow> bool" where
  "newest_first entries = sorted_wrt (\<lambda>a b. created_at b \<le> created_at a) entries"

text \<open>
  The clock does not run backwards: no run carries a timestamp older than the newest
  entry of the journal that it finds.
\<close>

fun clock_forward :: "journal_entry list \<Rightarrow> (journal_world \<times> report \<times> config) list \<Rightarrow> bool" where
  "clock_forward entries [] = True"
| "clock_forward entries ((jw, out, cfg) # runs) =
     ((entries = [] \<or> created_at (hd entries) \<le> created_at (journal_entry_of jw out cfg))
      \<and> clock_forward (append_research_journal jw entries out cfg) runs)"

text \<open>The runs that share one configured maximum.\<close>

definition same_maximum :: "int \<Rightarrow> (journal_world \<times> report \<times> config) list \<Rightarrow> bool" where
  "same_maximum m runs = list_all (\<lambda>run. max_entries (fst run) = m) runs"

section \<open>Options: the chosen expiration and the expected move in the specification's words\<close>

text \<open>
  The future expirations among the first five listed, those five to ten days out, and
  the chosen one: the first of the latter if there is one, else the first of the former.
\<close>

definition future_expirations :: "date \<Rightarrow> date list \<Rightarrow> date list" where
  "future_expirations td ds = filter (\<lambda>e. 1 \<le> e - td) (take 5 ds)"

definition weekly_expirations :: "date \<Rightarrow> date list \<Rightarrow> date list" where
  "weekly_expirations td ds = filter (\<lambda>e. 5 \<le> e - td \<and> e - td \<le> 10) (take 5 ds)"

definition chosen_expiration :: "date \<Rightarrow> date list \<Rightarrow> date option" where
  "chosen_expiration td ds =
     (case weekly_expirations td ds of
        w # _ \<Rightarrow> Some w
      | [] \<Rightarrow> (case future_expirations td ds of n # _ \<Rightarrow> Some n | [] \<Rightarrow> None))"

text \<open>
  When the snapshot is null. As claimed: no expiration, no future expiration among the
  first five, or both tables of the chosen expiration empty (a failing provider is read
  as an empty chain). As the source has it: one empty table is enough.
\<close>

definition claimed_null_snapshot :: "date \<Rightarrow> stock \<Rightarrow> bool" where
  "claimed_null_snapshot td stk =
     (case options_dates stk of
        Inl e \<Rightarrow> True
      | Inr ds \<Rightarrow>
          ds = [] \<or> future_expirations td ds = []
          \<or> (case chosen_expiration td ds of
                None \<Rightarrow> True
              | Some t \<Rightarrow>
                  (case chain_at stk t of
                     Inl e \<Rightarrow> True
                   | Inr ch \<Rightarrow> calls ch = [] \<and> puts ch = [])))"

definition null_snapshot :: "date \<Rightarrow> stock \<Rightarrow> bool" where
  "null_snapshot td stk =
     (case options_dates stk of
        Inl e \<Rightarrow> True
      | Inr ds \<Rightarrow>
          ds = [] \<or> future_expirations td ds = []
          \<or> (case chosen_expiration td ds of
                None \<Rightarrow> True
              | Some t \<Rightarrow>
                  (case chain_at stk t of
                     Inl e \<Rightarrow> True
                   | Inr ch \<Rightarrow> calls ch = [] \<or> puts ch = [])))"



section \<open>The specification's wording of the scoring, voting and category rules\<close>

text \<open>
  Section 4.2 of the specification: seven independent contributions, each a number of
  points and the reasons it appends. The RSI rule is worded for every RSI that is not null.
\<close>

definition claimed_rules :: "ticker_data \<Rightarrow> tally list" where
  "claimed_rules d =
     [(case days_to_earnings d of
         None \<Rightarrow> (0, [])
       | Some n \<Rightarrow>
           if 1 \<le> n \<and> n \<le> 3 then (3, [EarningsIn Zap n])
           else if 4 \<le> n \<and> n \<le> 7 then (2, [EarningsIn Calendar n])
           else if n = 0 then (1, [EarningsToday]) else (0, [])),
      (if 2 \<le> vol_surge d then (2, [VolumeX (vol_surge d)])
       else if 1.5 \<le> vol_surge d then (1, [VolumeX (vol_surge d)]) else (0, [])),
      (if 10 \<le> \<bar>momentum_5d d\<bar> then
         (2, [PctMove (if 0 < momentum_5d d then Rocket else ChartDown) \<bar>momentum_5d d\<bar>])
       else if 5 \<le> \<bar>momentum_5d d\<bar> then
         (1, [PctMove (if 0 < momentum_5d d then ChartUp else ChartDown) \<bar>momentum_5d d\<bar>])
       else (0, [])),
      (case rsi d of
         None \<Rightarrow> (0, [])
       | Some r \<Rightarrow>
           if 70 \<le> r then (1, [OverboughtRSI r])
           else if r \<le> 30 then (1.5, [OversoldRSI r]) else (0, [])),
      (case options d of
         None \<Rightarrow> (0, [])
       | Some opt \<Rightarrow>
           if 80 \<le> iv_avg opt then (1, [HighIV (iv_avg opt)])
           else if 0 < iv_avg opt \<and> iv_avg opt \<le> 30 then (1.5, [LowIV (iv_avg opt)])
           else (0, [])),
      (case options d of
         None \<Rightarrow> (0, [])
       | Some opt \<Rightarrow>
           if call_suggestion opt \<noteq> None \<or> put_suggestion opt \<noteq> None
           then (0.5, [AffordableOptions]) else (0, [])),
      (let s = sent_score (ai_sentiment d); e = (if 0 < s then Green else Red) in
       if 3 \<le> \<bar>s\<bar> then
         (1.5, [AISummary e (take 30 (case sent_summary (ai_sentiment d) of
                                        Summary t \<Rightarrow> t | _ \<Rightarrow> ''Strong signal''))])
       else if 2 \<le> \<bar>s\<bar> then (1, [AISentiment e]) else (0, []))]"

definition claimed_score :: "ticker_data \<Rightarrow> real" where
  "claimed_score d = sum_list (map fst (claimed_rules d))"

definition claimed_reasons :: "ticker_data \<Rightarrow> reason list" where
  "claimed_reasons d = concat (map snd (claimed_rules d))"

text \<open>
  Section 4.3: one vote each from momentum, trend, sentiment sign and RSI extremes; the
  direction compares the bullish with the bearish votes.
\<close>

datatype vote = Bull | Bear | Abstain

definition claimed_votes :: "ticker_data \<Rightarrow> vote list" where
  "claimed_votes d =
     [(if 3 < momentum_5d d then Bull else if momentum_5d d < - 3 then Bear else Abstain),
      (case trend d of Bullish \<Rightarrow> Bull | Bearish \<Rightarrow> Bear | Neutral \<Rightarrow> Abstain),
      (if 0 < sent_score (ai_sentiment d) then Bull
       else if sent_score (ai_sentiment d) < 0 then Bear else Abstain),
      (case rsi d of
         None \<Rightarrow> Abstain
       | Some r \<Rightarrow> if r < 35 then Bull else if 65 < r then Bear else Abstain)]"

definition claimed_direction :: "ticker_data \<Rightarrow> direction" where
  "claimed_direction d =
     (let bulls = count_list (claimed_votes d) Bull; bears = count_list (claimed_votes d) Bear
      in if bears < bulls then CALL else if bulls < bears then PUT else STRADDLE)"

text \<open>
  Section 4.3: the entry, target and stop of the underlying for a direction, rounded to
  cents as the source rounds them. A null RSI takes the second entry percentage.
\<close>

definition claimed_levels :: "direction \<Rightarrow> ticker_data \<Rightarrow> real \<times> real \<times> real" where
  "claimed_levels dir d =
     (let p = price d;
          em = (case options d of None \<Rightarrow> 5 | Some opt \<Rightarrow> expected_move_pct opt)
      in case dir of
           CALL \<Rightarrow>
             (py_round (p * (1 + (if (case rsi d of None \<Rightarrow> False | Some r \<Rightarrow> 50 < r)
                                  then - 1.5 else - 0.5) / 100)) 2,
              py_round (p * (1 + em * 0.7 / 100)) 2,
              py_round (p * (1 + - em * 0.5 / 100)) 2)
         | PUT \<Rightarrow>
             (py_round (p * (1 + (if (case rsi d of None \<Rightarrow> False | Some r \<Rightarrow> r < 50)
                                  then 1.5 else 0.5) / 100)) 2,
              py_round (p * (1 + - em * 0.7 / 100)) 2,
              py_round (p * (1 + em * 0.5 / 100)) 2)
         | STRADDLE \<Rightarrow>
             (p, py_round (p * (1 + em / 100)) 2, py_round (p * (1 - em / 200)) 2))"

definition levels :: "trade_idea \<Rightarrow> real \<times> real \<times> real" where
  "levels ti = (stock_entry (entry_exit ti), stock_target (entry_exit ti),
                stock_stop (entry_exit ti))"

text \<open>The direction that \<^verbatim>\<open>calculate_entry_exit\<close> reads from the dictionary.\<close>

definition stored_direction :: "ticker_data \<Rightarrow> direction" where
  "stored_direction d = (case trade_idea d of None \<Rightarrow> CALL | Some ti \<Rightarrow> direction ti)"

text \<open>Section 4.6: the three categories.\<close>

definition claimed_earnings_plays :: "ticker_data list \<Rightarrow> ticker_data list" where
  "claimed_earnings_plays results =
     filter (\<lambda>r. case days_to_earnings r of None \<Rightarrow> False | Some n \<Rightarrow> 0 \<le> n \<and> n \<le> 7)
       results"

definition claimed_momentum_plays :: "ticker_data list \<Rightarrow> ticker_data list" where
  "claimed_momentum_plays results =
     filter (\<lambda>r. 5 \<le> \<bar>momentum_5d r\<bar> \<and> r \<notin> set (claimed_earnings_plays results)) results"

definition claimed_oversold_plays :: "ticker_data list \<Rightarrow> ticker_data list" where
  "claimed_oversold_plays results =
     filter (\<lambda>r. (case rsi r of None \<Rightarrow> False | Some x \<Rightarrow> x \<le> 35)
                 \<and> r \<notin> set (claimed_earnings_plays results)) results"

section \<open>Example inputs\<close>

text \<open>
  A small market: \<open>BIG\<close> closes at 60; \<open>NEW\<close> has five bars; \<open>OLD\<close> reports earnings
  tomorrow (\<^verbatim>\<open>days_to_earnings\<close> 0) after a jump; \<open>DIP\<close> fell for thirteen days and ticked up by five cents; \<open>BEAR\<close>
  drifts down. No ticker has listed options or news; any other symbol fails to fetch.
\<close>

definition flat_bar :: "real \<Rightarrow> real \<Rightarrow> bar" where
  "flat_bar c v = \<lparr>Close = c, High = c, Low = c, Volume = v\<rparr>"

definition quiet_stock :: "bar list \<Rightarrow> string option \<Rightarrow> int option \<Rightarrow> stock" where
  "quiet_stock bars ed dd =
     \<lparr>history = Inr bars, calendar_earnings_date = ed, calendar_days_to_earnings = dd,
      options_dates = Inr [], chain_at = (\<lambda>_. Inl ProviderError), stock_news = []\<rparr>"

definition demo_market :: "string \<Rightarrow> stock" where
  "demo_market tk =
     (if tk = ''BIG'' then quiet_stock (map (\<lambda>c. flat_bar c 100) [60, 60, 60, 60, 60]) None None
      else if tk = ''NEW'' then
        quiet_stock (map (\<lambda>c. flat_bar c 100) [10, 10, 10, 10] @ [flat_bar 12 600]) None None
      else if tk = ''OLD'' then
        quiet_stock (map (\<lambda>c. flat_bar c 100)
          [20, 20, 20, 20, 20, 20, 20, 20, 20, 20, 20, 20, 20, 20] @ [flat_bar 24 400])
          (Some ''2024-01-16'') (Some 0)
      else if tk = ''DIP'' then
        quiet_stock (map (\<lambda>c. flat_bar c 100)
          [150, 140, 130, 120, 110, 100, 90, 80, 70, 60, 50, 40, 30, 20, 20.05]) None None
      else if tk = ''BEAR'' then
        quiet_stock (map (\<lambda>c. flat_bar c 100)
          [20, 21, 20, 21, 20, 21, 20, 21, 20, 21, 22, 21.5, 21, 20.5] @ [flat_bar 20 300])
          None None
      else \<lparr>history = Inl ProviderError, calendar_earnings_date = None,
            calendar_days_to_earnings = None, options_dates = Inl ProviderError,
            chain_at = (\<lambda>_. Inl ProviderError), stock_news = []\<rparr>)"

definition demo_config :: config where
  "demo_config = \<lparr>max_stock_price = Some 50, max_option_premium = Some 2,
     min_score = Some 2, use_ai_sentiment = Some True, ai_top_n = None\<rparr>"

definition demo_world :: world where
  "demo_world = \<lparr>market = demo_market, today = 0, now_iso = ''2024-01-15T19:00:00'',
     strftime = (\<lambda>d. if d = 0 then ''2024-01-15'' else if d = 1 then ''2024-01-16''
                 else ''2024-01-17+''),
     openai_key = False,
     sentiment_call = (\<lambda>_ _. default_sentiment)\<rparr>"

definition plain_signal :: ticker_data where
  "plain_signal = \<lparr>ticker = [], price = 0, change_pct = 0, volume = 100, vol_surge = 1,
     momentum_5d = 0, rsi = None, trend = Neutral, support = 0, resistance = 0,
     earnings_date = None, days_to_earnings = None, options = None, news = [],
     ai_sentiment = default_sentiment, score = None, reasons = None, trade_idea = None\<rparr>"

definition new_signal :: ticker_data where
  "new_signal = plain_signal\<lparr>ticker := ''NEW'', price := 12, change_pct := 20, volume := 600,
     vol_surge := 3, momentum_5d := 20, support := 10, resistance := 12\<rparr>"

definition old_signal :: ticker_data where
  "old_signal = plain_signal\<lparr>ticker := ''OLD'', price := 24, change_pct := 20, volume := 400,
     vol_surge := 3.33, momentum_5d := 20, rsi := Some 100, support := 20, resistance := 24,
     earnings_date := Some ''2024-01-16'', days_to_earnings := Some 0\<rparr>"

definition dip_signal :: ticker_data where
  "dip_signal = plain_signal\<lparr>ticker := ''DIP'', price := 20.05, change_pct := 0.25,
     momentum_5d := - 59.9, rsi := Some 0, support := 20, resistance := 100\<rparr>"

definition bear_signal :: ticker_data where
  "bear_signal = plain_signal\<lparr>ticker := ''BEAR'', price := 20, change_pct := - 2.44,
     volume := 300, vol_surge := 2.65, momentum_5d := - 9.09, rsi := Some 50, support := 20,
     resistance := 22\<rparr>"

text \<open>What the scan makes of the example market.\<close>

definition demo_idea :: "direction \<Rightarrow> trend \<Rightarrow> reason list \<Rightarrow> real \<Rightarrow> real \<Rightarrow> real \<Rightarrow> trade_idea" where
  "demo_idea dir b rs e t s =
     \<lparr>direction = dir, bias = b, expiry = OneToTwoWeeks, ti_reasons = rs,
      entry_exit = \<lparr>ee_direction = CALL, stock_entry = e, stock_target = t, stock_stop = s,
                     option_entry = ''At or below suggested premium'',
                     option_target = ''50-100% gain on premium'',
                     option_stop = ''50% loss on premium''\<rparr>,
      suggested_option = None\<rparr>"

definition scored :: "ticker_data \<Rightarrow> real \<Rightarrow> reason list \<Rightarrow> trade_idea \<Rightarrow> ticker_data" where
  "scored d sc rs ti = d\<lparr>score := Some sc, reasons := Some rs, trade_idea := Some ti\<rparr>"

definition old_result :: ticker_data where
  "old_result =
     (let rs = [EarningsToday, VolumeX 3.33, PctMove Rocket 20, OverboughtRSI 100]
      in scored old_signal 6 rs (demo_idea STRADDLE Neutral rs 23.64 24.84 23.4))"

definition dip_result :: ticker_data where
  "dip_result =
     (let rs = [PctMove ChartDown 59.9]
      in scored dip_signal 2 rs (demo_idea PUT Bearish rs 19.95 20.75 19.55))"

definition bear_result :: ticker_data where
  "bear_result =
     (let rs = [VolumeX 2.65, PctMove ChartDown 9.09]
      in scored bear_signal 3 rs (demo_idea PUT Bearish rs 19.9 20.7 19.5))"

definition demo_universe :: "string list" where
  "demo_universe = [''BIG'', ''NEW'', ''OLD'', ''DIP'', ''BEAR'', ''GONE'']"

text \<open>The dictionaries that the scan loop hands to \<^verbatim>\<open>generate_trade_idea\<close>.\<close>

definition new_scored :: ticker_data where
  "new_scored = new_signal\<lparr>score := Some 4, reasons := Some [VolumeX 3, PctMove Rocket 20]\<rparr>"

definition dip_scored :: ticker_data where
  "dip_scored = dip_signal\<lparr>score := Some 2, reasons := Some [PctMove ChartDown 59.9]\<rparr>"

definition bear_scored :: ticker_data where
  "bear_scored =
     bear_signal\<lparr>score := Some 3, reasons := Some [VolumeX 2.65, PctMove ChartDown 9.09]\<rparr>"

text \<open>A sentiment of strength 4 whose summary is \<^verbatim>\<open>None\<close>.\<close>

definition strong_null_signal :: ticker_data where
  "strong_null_signal =
     plain_signal\<lparr>ai_sentiment := \<lparr>sent_score = 4, sent_summary = NullSummary,
                                     confidence = ''low''\<rparr>\<rparr>"

text \<open>A rule either adds nothing, or adds points and one reason.\<close>

definition one_reason :: "tally \<Rightarrow> bool" where
  "one_reason t = ((fst t = 0 \<and> snd t = []) \<or> (0 < fst t \<and> length (snd t) = 1))"

text \<open>Option chains: one quote per table, every expiration with the same chain.\<close>

definition quote :: "real \<Rightarrow> real \<Rightarrow> real \<Rightarrow> chain_row" where
  "quote k pr iv = \<lparr>strike = k, lastPrice = pr, impliedVolatility = iv,
                     row_volume = Some 10, openInterest = Some 10\<rparr>"

definition listed_stock :: "date list \<Rightarrow> chain_row list \<Rightarrow> chain_row list \<Rightarrow> stock" where
  "listed_stock ds cs ps =
     \<lparr>history = Inr [], calendar_earnings_date = None, calendar_days_to_earnings = None,
      options_dates = Inr ds, chain_at = (\<lambda>_. Inr \<lparr>calls = cs, puts = ps\<rparr>), stock_news = []\<rparr>"

definition year_stock :: stock where
  "year_stock = listed_stock [365] [quote 10 1 0.333] [quote 10 1 0.333]"

definition year_snapshot :: options_snapshot where
  "year_snapshot =
     \<lparr>expiration = 365, dte = 365, iv_avg = 33.3, expected_move_pct = 33.3,
      expected_move_dollars = 3.33, call_suggestion = None,
      put_suggestion = Some \<lparr>sug_strike = 10, premium = 1, sug_iv = 33.3,
                             sug_volume = 10, oi = 10, break_even = 9\<rparr>,
      atm_call_price = Some 1, atm_put_price = Some 1\<rparr>"

definition puts_only_stock :: stock where
  "puts_only_stock = listed_stock [7] [] [quote 10 1 0.5]"


text \<open>Journals: an empty report and the entry it gives, no key for the narrative.\<close>

definition report_at :: "string \<Rightarrow> report" where
  "report_at t =
     \<lparr>generated_at = t,
      report_summary = \<lparr>total_scanned = 0, passed_filters = 0, opportunities_found = 0,
                        earnings_upcoming = 0, oversold_count = 0\<rparr>,
      top_picks = [],
      categories = \<lparr>cat_earnings_plays = [], cat_momentum_plays = [],
                    cat_oversold_plays = []\<rparr>,
      earnings_calendar = [],
      all_results = []\<rparr>"

definition entry_at :: "string \<Rightarrow> journal_entry" where
  "entry_at t = \<lparr>created_at = t, je_title = ScanTitle 0 0 0, je_summary = ScannedSummary 0 0,
                  je_top_picks = [], ai_journal = None, model = None\<rparr>"

definition quiet_journal_world :: "int option \<Rightarrow> journal_world" where
  "quiet_journal_world m =
     \<lparr>jw_now = ''2024-01-20T19:00:00'', jw_openai_key = False,
      jw_openai_model = ''gpt-4o-mini'', journal_note = Inr None, max_entries_env = m\<rparr>"

text \<open>
  A run whose narrative call returns the object \<open>note\<close>, and the entry it gives for an
  empty report.
\<close>

definition narrating_journal_world :: "string \<Rightarrow> journal_world" where
  "narrating_journal_world note =
     \<lparr>jw_now = ''2024-01-20T19:00:00'', jw_openai_key = True,
      jw_openai_model = ''gpt-4o-mini'', journal_note = Inr (Some note),
      max_entries_env = None\<rparr>"

definition noted_entry :: "string \<Rightarrow> string \<Rightarrow> journal_entry" where
  "noted_entry t note = (entry_at t)\<lparr>ai_journal := Some note, model := Some ''gpt-4o-mini''\<rparr>"

section \<open>Evaluating the example market\<close>

lemma py_round_unfold:
  "py_round x n =
     (let y = x * 10 ^ n; f = \<lfloor>y\<rfloor>; d = y - of_int f
      in of_int (if d < 1 / 2 then f else if 1 / 2 < d then f + 1
                 else if even f then f else f + 1) / 10 ^ n)"
  by (simp add: py_round_def round_half_even_def Let_def)

lemmas extractor_defs = get_stock_data_def demo_market_def quiet_stock_def flat_bar_def
  demo_config_def plain_signal_def Let_def mean_def tail_def calculate_rsi_def truthy_def
  minimum_def maximum_def get_options_data_def py_round_unfold py_int_def

lemmas scorer_defs = score_opportunity_def earnings_catalyst_def volume_surge_def
  momentum_move_def rsi_extremes_def truthy_def options_iv_def ai_sentiment_rule_def
  default_sentiment_def plain_signal_def Let_def

lemmas idea_defs = generate_trade_idea_def calculate_entry_exit_def signals_def truthy_def
  default_sentiment_def plain_signal_def Let_def py_round_unfold

lemma get_new: "get_stock_data demo_market 0 ''NEW'' demo_config = Some new_signal"
  by (simp add: extractor_defs new_signal_def)

lemma get_old: "get_stock_data demo_market 0 ''OLD'' demo_config = Some old_signal"
  by (simp add: extractor_defs old_signal_def)

lemma get_dip: "get_stock_data demo_market 0 ''DIP'' demo_config = Some dip_signal"
  by (simp add: extractor_defs dip_signal_def)

lemma get_bear: "get_stock_data demo_market 0 ''BEAR'' demo_config = Some bear_signal"
  by (simp add: extractor_defs bear_signal_def)

lemma get_big: "get_stock_data demo_market 0 ''BIG'' demo_config = None"
  by (simp add: extractor_defs)

lemma get_gone: "get_stock_data demo_market 0 ''GONE'' demo_config = None"
  by (simp add: get_stock_data_def demo_market_def)

lemma score_new:
  "score_opportunity new_signal demo_config = Inr (4, [VolumeX 3, PctMove Rocket 20])"
  by (simp add: scorer_defs new_signal_def)

lemma score_old:
  "score_opportunity old_signal demo_config
     = Inr (6, [EarningsToday, VolumeX 3.33, PctMove Rocket 20, OverboughtRSI 100])"
  by (simp add: scorer_defs old_signal_def)

lemma score_dip: "score_opportunity dip_signal demo_config = Inr (2, [PctMove ChartDown 59.9])"
  by (simp add: scorer_defs dip_signal_def)

lemma score_bear:
  "score_opportunity bear_signal demo_config = Inr (3, [VolumeX 2.65, PctMove ChartDown 9.09])"
  by (simp add: scorer_defs bear_signal_def)

lemma idea_new:
  "generate_trade_idea (new_signal\<lparr>score := Some sc, reasons := Some rs\<rparr>) sc rs = Inl TypeError"
  by (simp add: idea_defs new_signal_def)

lemma idea_bear:
  "generate_trade_idea (bear_signal\<lparr>score := Some sc, reasons := Some rs\<rparr>) sc rs
     = Inr (demo_idea PUT Bearish rs 19.9 20.7 19.5)"
  by (simp add: idea_defs bear_signal_def demo_idea_def)

lemma idea_dip:
  "generate_trade_idea (dip_signal\<lparr>score := Some sc, reasons := Some rs\<rparr>) sc rs
     = Inr (demo_idea PUT Bearish rs 19.95 20.75 19.55)"
  by (simp add: idea_defs dip_signal_def demo_idea_def)

lemma idea_old:
  "generate_trade_idea (old_signal\<lparr>score := Some sc, reasons := Some rs\<rparr>) sc rs
     = Inr (demo_idea STRADDLE Neutral rs 23.64 24.84 23.4)"
  by (simp add: idea_defs old_signal_def demo_idea_def)

lemma process_demo:
  "process_ticker demo_market 0 demo_config ''BIG'' = None"
  "process_ticker demo_market 0 demo_config ''NEW'' = None"
  "process_ticker demo_market 0 demo_config ''OLD'' = Some old_result"
  "process_ticker demo_market 0 demo_config ''DIP'' = Some dip_result"
  "process_ticker demo_market 0 demo_config ''BEAR'' = Some bear_result"
  "process_ticker demo_market 0 demo_config ''GONE'' = None"
  by (simp_all add: process_ticker_def get_big get_new get_old get_dip get_bear get_gone
      score_new score_old score_dip score_bear idea_new idea_bear idea_dip idea_old
      old_result_def dip_result_def bear_result_def scored_def Let_def)
     (simp_all add: demo_config_def)

lemma demo_scan:
  "scan demo_market 0 demo_config demo_universe = [old_result, dip_result, bear_result]"
  by (simp add: scan_def demo_universe_def process_demo)

lemma demo_scores:
  "score old_result = Some 6" "score dip_result = Some 2" "score bear_result = Some 3"
  by (simp_all add: old_result_def dip_result_def bear_result_def scored_def Let_def)

lemma demo_sorted:
  "sort_by_score [old_result, dip_result, bear_result] = [old_result, bear_result, dip_result]"
  by (simp add: sort_by_score_def demo_scores)

lemma demo_tickers:
  "ticker old_result = ''OLD''" "ticker dip_result = ''DIP''" "ticker bear_result = ''BEAR''"
  by (simp_all add: old_result_def dip_result_def bear_result_def scored_def Let_def
      old_signal_def dip_signal_def bear_signal_def)

section \<open>The price filter and the result set\<close>

lemma get_stock_data_rejects_expensive:
  assumes "history (mk tk) = Inr hist" and "hist \<noteq> []"
    and "(case max_stock_price cfg of None \<Rightarrow> 50 | Some m \<Rightarrow> m) < Close (last hist)"
  shows "get_stock_data mk td tk cfg = None"
  using assms by (simp add: get_stock_data_def Let_def)

lemma get_stock_data_ticker: "get_stock_data mk td tk cfg = Some d \<Longrightarrow> ticker d = tk"
  by (auto simp: get_stock_data_def Let_def split: sum.splits if_splits)

lemma get_stock_data_fresh: "get_stock_data mk td tk cfg = Some d \<Longrightarrow> trade_idea d = None"
  by (auto simp: get_stock_data_def Let_def split: sum.splits if_splits)

lemma get_stock_data_short_history:
  "get_stock_data mk td tk cfg = Some d \<Longrightarrow> history (mk tk) = Inr hist \<Longrightarrow> length hist < 15
     \<Longrightarrow> rsi d = None"
  by (auto simp: get_stock_data_def Let_def calculate_rsi_def truthy_def
           split: sum.splits if_splits)

lemma process_ticker_ticker:
  "process_ticker mk td cfg tk = Some r
     \<Longrightarrow> ticker r = tk \<and> get_stock_data mk td tk cfg \<noteq> None"
  by (auto simp: process_ticker_def Let_def dest: get_stock_data_ticker
           split: option.splits sum.splits if_splits prod.splits)

lemma in_map_filter: "r \<in> set (List.map_filter f xs) \<longleftrightarrow> (\<exists>x \<in> set xs. f x = Some r)"
  by (induction xs) (auto split: option.splits)

lemma scan_tickers:
  "r \<in> set (scan mk td cfg universe) \<Longrightarrow> get_stock_data mk td (ticker r) cfg \<noteq> None"
  by (auto simp: scan_def in_map_filter dest: process_ticker_ticker)

lemma scan_excludes:
  "process_ticker mk td cfg tk = None \<Longrightarrow> tk \<notin> ticker ` set (scan mk td cfg universe)"
proof
  assume a: "process_ticker mk td cfg tk = None" "tk \<in> ticker ` set (scan mk td cfg universe)"
  then obtain r x where rx: "ticker r = tk" "process_ticker mk td cfg x = Some r"
    by (auto simp: scan_def in_map_filter)
  then have "ticker r = x" using process_ticker_ticker by blast
  then show False using a(1) rx by simp
qed

lemma set_sort_by_score: "set (sort_by_score rs) = set rs"
  by (simp add: sort_by_score_def)

lemma py_slice_to_take: "\<exists>k. py_slice_to xs m = take k xs"
  by (auto simp: py_slice_to_def)

lemma py_slice_to_append_drop: "py_slice_to xs m @ drop (length (py_slice_to xs m)) xs = xs"
proof -
  obtain k where k: "py_slice_to xs m = take k xs" using py_slice_to_take by blast
  have "take k xs @ drop (length (take k xs)) xs = xs"
    by (simp add: min_def)
  then show ?thesis by (simp add: k)
qed

lemma enrich_result_ticker: "enrich_result ai r = Inr r' \<Longrightarrow> ticker r' = ticker r"
  by (auto simp: enrich_result_def Let_def split: if_splits sum.splits summary.splits)

lemma enrich_all_tickers: "enrich_all ai rs = Inr rs' \<Longrightarrow> map ticker rs' = map ticker rs"
  by (induction rs arbitrary: rs') (auto split: sum.splits dest: enrich_result_ticker)

lemma ai_stage_tickers:
  assumes "ai_stage key ai cfg rs = Inr rs'"
  shows "ticker ` set rs' = ticker ` set rs"
proof (cases "key \<and> (case use_ai_sentiment cfg of None \<Rightarrow> True | Some b \<Rightarrow> b)")
  case False
  then show ?thesis using assms by (auto simp: ai_stage_def)
next
  case True
  define top where "top = py_slice_to rs (case ai_top_n cfg of None \<Rightarrow> 5 | Some n \<Rightarrow> n)"
  from True assms obtain top' where e: "enrich_all ai top = Inr top'"
    and r: "rs' = sort_by_score (top' @ drop (length top) rs)"
    by (auto simp: ai_stage_def Let_def top_def split: sum.splits)
  have "map ticker (top' @ drop (length top) rs) = map ticker (top @ drop (length top) rs)"
    using enrich_all_tickers[OF e] by simp
  also have "top @ drop (length top) rs = rs"
    unfolding top_def by (rule py_slice_to_append_drop)
  finally have "set (map ticker (top' @ drop (length top) rs)) = set (map ticker rs)"
    by simp
  then show ?thesis unfolding r set_sort_by_score by (simp only: set_map)
qed

lemma run_research_tickers:
  assumes "run_research w cfg universe = Inr rep"
  shows "ticker ` set (all_results rep) = ticker ` set (scan (market w) (today w) cfg universe)"
proof -
  from assms obtain rs where a: "ai_stage (openai_key w) (sentiment_call w) cfg
      (sort_by_score (scan (market w) (today w) cfg universe)) = Inr rs"
    and "all_results rep = rs"
    by (auto simp: run_research_def split: sum.splits)
  then show ?thesis using ai_stage_tickers[OF a] by (simp add: set_sort_by_score)
qed

lemma run_research_without_key:
  "\<not> openai_key w \<Longrightarrow> \<exists>rep. run_research w cfg universe = Inr rep
     \<and> all_results rep = sort_by_score (scan (market w) (today w) cfg universe)"
  by (simp add: run_research_def ai_stage_def)

lemma set_take_filter: "set (take n (filter P xs)) \<subseteq> set xs"
  using set_take_subset[of n "filter P xs"] by auto

lemma report_lists_subset:
  assumes "run_research w cfg universe = Inr rep"
  shows "set (top_picks rep) \<subseteq> set (all_results rep)"
    and "set (cat_earnings_plays (categories rep)) \<subseteq> set (all_results rep)"
    and "set (cat_momentum_plays (categories rep)) \<subseteq> set (all_results rep)"
    and "set (cat_oversold_plays (categories rep)) \<subseteq> set (all_results rep)"
    and "day \<in> set (earnings_calendar rep)
           \<Longrightarrow> fst ` set (cal_earnings day) \<subseteq> ticker ` set (all_results rep)"
proof -
  from assms obtain rs where
    tp: "top_picks rep = take 10 rs" and
    ce: "cat_earnings_plays (categories rep) = take 5 (earnings_plays rs)" and
    cm: "cat_momentum_plays (categories rep) = take 5 (momentum_plays rs)" and
    co: "cat_oversold_plays (categories rep) = take 5 (oversold_plays rs)" and
    ec: "earnings_calendar rep = build_earnings_calendar (strftime w) (today w)
           (filter (\<lambda>r. days_to_earnings r \<noteq> None) rs)" and
    ar: "all_results rep = rs"
    by (auto simp: run_research_def split: sum.splits)
  show "set (top_picks rep) \<subseteq> set (all_results rep)"
    unfolding tp ar by (rule set_take_subset)
  show "set (cat_earnings_plays (categories rep)) \<subseteq> set (all_results rep)"
    unfolding ce ar earnings_plays_def by (rule set_take_filter)
  show "set (cat_momentum_plays (categories rep)) \<subseteq> set (all_results rep)"
    unfolding cm ar momentum_plays_def by (rule set_take_filter)
  show "set (cat_oversold_plays (categories rep)) \<subseteq> set (all_results rep)"
    unfolding co ar oversold_plays_def by (rule set_take_filter)
  show "fst ` set (cal_earnings day) \<subseteq> ticker ` set (all_results rep)"
    if "day \<in> set (earnings_calendar rep)"
    using that unfolding ec ar build_earnings_calendar_def by auto
qed

text \<open>
  Claim C1. Whenever the latest close of a ticker's history exceeds \<^verbatim>\<open>max_stock_price\<close>
  (50 when the key is missing), \<^verbatim>\<open>get_stock_data\<close> returns \<^verbatim>\<open>None\<close> for it; the ticker is
  then in no result of the scan and, when the run produces a report, in none of the
  report's lists: all results, top picks, the three categories, the earnings calendar.
\<close>

theorem price_filter_excludes_ticker:
  assumes "history (market w tk) = Inr hist" and "hist \<noteq> []"
    and "(case max_stock_price cfg of None \<Rightarrow> 50 | Some m \<Rightarrow> m) < Close (last hist)"
  shows "get_stock_data (market w) (today w) tk cfg = None
       \<and> tk \<notin> ticker ` set (scan (market w) (today w) cfg universe)
       \<and> (\<forall>rep. run_research w cfg universe = Inr rep \<longrightarrow>
             tk \<notin> ticker ` set (all_results rep)
           \<and> tk \<notin> ticker ` set (top_picks rep)
           \<and> tk \<notin> ticker ` set (cat_earnings_plays (categories rep))
           \<and> tk \<notin> ticker ` set (cat_momentum_plays (categories rep))
           \<and> tk \<notin> ticker ` set (cat_oversold_plays (categories rep))
           \<and> (\<forall>day \<in> set (earnings_calendar rep). tk \<notin> fst ` set (cal_earnings day)))"
proof -
  have none: "get_stock_data (market w) (today w) tk cfg = None"
    using assms by (rule get_stock_data_rejects_expensive)
  have out: "tk \<notin> ticker ` set (scan (market w) (today w) cfg universe)"
    using none scan_tickers by force
  have rep: "tk \<notin> ticker ` set (all_results rep)"
    if "run_research w cfg universe = Inr rep" for rep
    using out run_research_tickers[OF that] by simp
  have sub: "tk \<notin> ticker ` set xs"
    if "run_research w cfg universe = Inr rep" "set xs \<subseteq> set (all_results rep)" for rep xs
    using rep[OF that(1)] that(2) by blast
  have cal: "tk \<notin> fst ` set (cal_earnings day)"
    if "run_research w cfg universe = Inr rep" "day \<in> set (earnings_calendar rep)" for rep day
    using rep[OF that(1)] report_lists_subset(5)[OF that] by blast
  have lists: "tk \<notin> ticker ` set (all_results rep)
           \<and> tk \<notin> ticker ` set (top_picks rep)
           \<and> tk \<notin> ticker ` set (cat_earnings_plays (categories rep))
           \<and> tk \<notin> ticker ` set (cat_momentum_plays (categories rep))
           \<and> tk \<notin> ticker ` set (cat_oversold_plays (categories rep))
           \<and> (\<forall>day \<in> set (earnings_calendar rep). tk \<notin> fst ` set (cal_earnings day))"
    if r: "run_research w cfg universe = Inr rep" for rep
    using rep[OF r] sub[OF r report_lists_subset(1)[OF r]] sub[OF r report_lists_subset(2)[OF r]]
      sub[OF r report_lists_subset(3)[OF r]] sub[OF r report_lists_subset(4)[OF r]] cal[OF r]
    by simp
  show ?thesis
    using none out lists by simp
qed

theorem price_filter_excludes_ticker_witness:
  "history (market demo_world ''BIG'') = Inr (map (\<lambda>c. flat_bar c 100) [60, 60, 60, 60, 60])
   \<and> (case max_stock_price demo_config of None \<Rightarrow> 50 | Some m \<Rightarrow> m)
       < Close (last (map (\<lambda>c. flat_bar c 100) [60, 60, 60, 60, 60]))
   \<and> get_stock_data (market demo_world) (today demo_world) ''BIG'' demo_config = None
   \<and> ''BIG'' \<notin> ticker ` set (scan (market demo_world) (today demo_world) demo_config demo_universe)
   \<and> (\<exists>rep. run_research demo_world demo_config demo_universe = Inr rep
          \<and> all_results rep = [old_result, bear_result, dip_result]
          \<and> ''BIG'' \<notin> ticker ` set (all_results rep)
          \<and> ''BIG'' \<notin> ticker ` set (top_picks rep)
          \<and> ''BIG'' \<notin> ticker ` set (cat_momentum_plays (categories rep)))"
proof -
  let ?hist = "map (\<lambda>c. flat_bar c 100) [60, 60, 60, 60, 60]"
  have h: "history (market demo_world ''BIG'') = Inr ?hist"
    by (simp add: demo_world_def demo_market_def quiet_stock_def)
  have ne: "?hist \<noteq> []" by simp
  have p: "(case max_stock_price demo_config of None \<Rightarrow> 50 | Some m \<Rightarrow> m) < Close (last ?hist)"
    by (simp add: demo_config_def flat_bar_def)
  obtain rep where rep: "run_research demo_world demo_config demo_universe = Inr rep"
    "all_results rep = sort_by_score (scan (market demo_world) (today demo_world) demo_config demo_universe)"
    using run_research_without_key[of demo_world demo_config demo_universe]
    by (auto simp: demo_world_def)
  have ar: "all_results rep = [old_result, bear_result, dip_result]"
    using rep(2) by (simp add: demo_world_def demo_scan demo_sorted)
  show ?thesis
    using price_filter_excludes_ticker[OF h ne p, of demo_universe] h p rep(1) ar
    by auto
qed

section \<open>A null RSI\<close>

lemma entry_exit_null_rsi:
  assumes "rsi d = None" and "stored_direction d \<noteq> STRADDLE"
  shows "calculate_entry_exit d opts = Inl TypeError"
  using assms
  by (auto simp: calculate_entry_exit_def stored_direction_def Let_def
           split: direction.splits option.splits)

lemma generate_trade_idea_null_rsi:
  assumes "rsi d = None" and "stored_direction d \<noteq> STRADDLE"
  shows "generate_trade_idea d sc rs = Inl TypeError"
  using entry_exit_null_rsi[OF assms] by (simp add: generate_trade_idea_def Let_def)

lemma process_ticker_null_rsi:
  assumes "get_stock_data mk td tk cfg = Some d" and "rsi d = None"
  shows "process_ticker mk td cfg tk = None"
proof -
  have fresh: "trade_idea d = None" using assms(1) by (rule get_stock_data_fresh)
  have "generate_trade_idea (d\<lparr>score := Some sc, reasons := Some rs\<rparr>) sc rs = Inl TypeError"
    for sc rs
    by (rule generate_trade_idea_null_rsi) (simp_all add: assms(2) fresh stored_direction_def)
  then show ?thesis using assms(1)
    by (auto simp: process_ticker_def Let_def split: sum.splits prod.splits)
qed

text \<open>
  Claim C10. For a signal whose RSI is null, \<^verbatim>\<open>calculate_entry_exit\<close> raises a type error
  when the direction it reads is CALL or PUT, and so does \<^verbatim>\<open>generate_trade_idea\<close>. A signal
  of \<^verbatim>\<open>get_stock_data\<close> has no trade idea yet, so the direction read is CALL: with a null
  RSI the ticker's trade idea raises, the scan loop's handler drops the ticker, and the
  ticker is in no result. A history of fewer than 15 bars gives a null RSI.
\<close>

theorem null_rsi_raises_type_error:
  "(rsi d = None \<and> stored_direction d \<noteq> STRADDLE \<longrightarrow>
      calculate_entry_exit d opts = Inl TypeError
    \<and> generate_trade_idea d sc rs = Inl TypeError)
   \<and> (get_stock_data mk td tk cfg = Some d' \<and> rsi d' = None \<longrightarrow>
        stored_direction d' = CALL
      \<and> generate_trade_idea (d'\<lparr>score := Some sc, reasons := Some rs\<rparr>) sc rs = Inl TypeError
      \<and> process_ticker mk td cfg tk = None
      \<and> tk \<notin> ticker ` set (scan mk td cfg universe))
   \<and> (get_stock_data mk td tk cfg = Some d' \<and> history (mk tk) = Inr hist \<and> length hist < 15 \<longrightarrow>
        rsi d' = None)"
proof (intro conjI impI)
  assume a: "rsi d = None \<and> stored_direction d \<noteq> STRADDLE"
  then show "calculate_entry_exit d opts = Inl TypeError"
    by (simp add: entry_exit_null_rsi)
  from a show "generate_trade_idea d sc rs = Inl TypeError"
    by (simp add: generate_trade_idea_null_rsi)
next
  assume b: "get_stock_data mk td tk cfg = Some d' \<and> rsi d' = None"
  then have fresh: "trade_idea d' = None" using get_stock_data_fresh by blast
  then show "stored_direction d' = CALL" by (simp add: stored_direction_def)
  show "generate_trade_idea (d'\<lparr>score := Some sc, reasons := Some rs\<rparr>) sc rs = Inl TypeError"
    by (rule generate_trade_idea_null_rsi) (simp_all add: b fresh stored_direction_def)
  from b have "process_ticker mk td cfg tk = None"
    using process_ticker_null_rsi by blast
  then show "process_ticker mk td cfg tk = None" .
  then show "tk \<notin> ticker ` set (scan mk td cfg universe)" by (rule scan_excludes)
next
  assume "get_stock_data mk td tk cfg = Some d' \<and> history (mk tk) = Inr hist \<and> length hist < 15"
  then show "rsi d' = None" using get_stock_data_short_history by blast
qed

theorem null_rsi_raises_type_error_witness:
  "rsi new_signal = None \<and> stored_direction new_signal \<noteq> STRADDLE
   \<and> calculate_entry_exit new_signal None = Inl TypeError
   \<and> generate_trade_idea new_signal 4 [VolumeX 3, PctMove Rocket 20] = Inl TypeError
   \<and> history (demo_market ''NEW'') = Inr (map (\<lambda>c. flat_bar c 100) [10, 10, 10, 10] @ [flat_bar 12 600])
   \<and> length (map (\<lambda>c. flat_bar c 100) [10, 10, 10, 10] @ [flat_bar 12 600]) < 15
   \<and> get_stock_data demo_market 0 ''NEW'' demo_config = Some new_signal
   \<and> score_opportunity new_signal demo_config = Inr (4, [VolumeX 3, PctMove Rocket 20])
   \<and> (case min_score demo_config of None \<Rightarrow> 0 | Some m \<Rightarrow> m) \<le> 4
   \<and> generate_trade_idea (new_signal\<lparr>score := Some 4, reasons := Some [VolumeX 3, PctMove Rocket 20]\<rparr>)
       4 [VolumeX 3, PctMove Rocket 20] = Inl TypeError
   \<and> process_ticker demo_market 0 demo_config ''NEW'' = None
   \<and> ''NEW'' \<notin> ticker ` set (scan demo_market 0 demo_config demo_universe)"
proof -
  have r: "rsi new_signal = None" "stored_direction new_signal \<noteq> STRADDLE"
    by (simp_all add: new_signal_def plain_signal_def stored_direction_def)
  have h: "history (demo_market ''NEW'')
      = Inr (map (\<lambda>c. flat_bar c 100) [10, 10, 10, 10] @ [flat_bar 12 600])"
    by (simp add: demo_market_def quiet_stock_def)
  have m: "(case min_score demo_config of None \<Rightarrow> 0 | Some m \<Rightarrow> m) \<le> 4"
    by (simp add: demo_config_def)
  show ?thesis
    using null_rsi_raises_type_error[of new_signal None 4 "[VolumeX 3, PctMove Rocket 20]"
        demo_market 0 "''NEW''" demo_config new_signal demo_universe
        "map (\<lambda>c. flat_bar c 100) [10, 10, 10, 10] @ [flat_bar 12 600]"]
      r h m get_new score_new
    by simp
qed

section \<open>The scorer as a sum of rule contributions\<close>

text \<open>
  The seven blocks of \<^verbatim>\<open>score_opportunity\<close> add, in order, the contributions of the
  specification's rules, as long as the RSI is not exactly zero and the function returns.
\<close>

lemma earnings_catalyst_eq:
  "earnings_catalyst d acc = (fst acc + fst (claimed_rules d ! 0), snd acc @ snd (claimed_rules d ! 0))"
  by (cases acc) (simp add: earnings_catalyst_def claimed_rules_def split: option.splits)

lemma volume_surge_eq:
  "volume_surge d acc = (fst acc + fst (claimed_rules d ! 1), snd acc @ snd (claimed_rules d ! 1))"
  by (cases acc) (simp add: volume_surge_def claimed_rules_def)

lemma momentum_move_eq:
  "momentum_move d acc = (fst acc + fst (claimed_rules d ! 2), snd acc @ snd (claimed_rules d ! 2))"
  by (cases acc) (simp add: momentum_move_def claimed_rules_def Let_def)

lemma rsi_extremes_eq:
  "rsi d \<noteq> Some 0 \<Longrightarrow>
   rsi_extremes d acc = (fst acc + fst (claimed_rules d ! 3), snd acc @ snd (claimed_rules d ! 3))"
  by (cases acc) (auto simp: rsi_extremes_def claimed_rules_def truthy_def Let_def split: option.splits)

lemma options_iv_eq:
  "options_iv d acc = (fst acc + fst (claimed_rules d ! 4) + fst (claimed_rules d ! 5),
                       snd acc @ snd (claimed_rules d ! 4) @ snd (claimed_rules d ! 5))"
  by (cases acc) (simp add: options_iv_def claimed_rules_def Let_def split: option.splits)

lemma ai_sentiment_rule_eq:
  "(3 \<le> \<bar>sent_score (ai_sentiment d)\<bar> \<longrightarrow> sent_summary (ai_sentiment d) \<noteq> NullSummary) \<Longrightarrow>
   ai_sentiment_rule d acc
     = Inr (fst acc + fst (claimed_rules d ! 6), snd acc @ snd (claimed_rules d ! 6))"
  by (cases acc) (auto simp: ai_sentiment_rule_def claimed_rules_def Let_def split: summary.splits)

lemma claimed_rules_length: "length (claimed_rules d) = 7"
  by (simp add: claimed_rules_def)

lemma claimed_rules_nth:
  "claimed_rules d = [claimed_rules d ! 0, claimed_rules d ! 1, claimed_rules d ! 2,
     claimed_rules d ! 3, claimed_rules d ! 4, claimed_rules d ! 5, claimed_rules d ! 6]"
  by (simp add: claimed_rules_def)

lemma claimed_score_nth:
  "claimed_score d = fst (claimed_rules d ! 0) + fst (claimed_rules d ! 1) + fst (claimed_rules d ! 2)
     + fst (claimed_rules d ! 3) + fst (claimed_rules d ! 4) + fst (claimed_rules d ! 5)
     + fst (claimed_rules d ! 6)"
  unfolding claimed_score_def by (subst claimed_rules_nth) (simp del: nth_Cons_numeral)

lemma claimed_reasons_nth:
  "claimed_reasons d = snd (claimed_rules d ! 0) @ snd (claimed_rules d ! 1) @ snd (claimed_rules d ! 2)
     @ snd (claimed_rules d ! 3) @ snd (claimed_rules d ! 4) @ snd (claimed_rules d ! 5)
     @ snd (claimed_rules d ! 6)"
  unfolding claimed_reasons_def by (subst claimed_rules_nth) (simp del: nth_Cons_numeral)

lemma score_opportunity_sum:
  assumes "rsi d \<noteq> Some 0"
    and "3 \<le> \<bar>sent_score (ai_sentiment d)\<bar> \<longrightarrow> sent_summary (ai_sentiment d) \<noteq> NullSummary"
  shows "score_opportunity d cfg = Inr (claimed_score d, claimed_reasons d)"
  unfolding score_opportunity_def claimed_score_nth claimed_reasons_nth
  by (simp add: ai_sentiment_rule_eq[OF assms(2)] options_iv_eq rsi_extremes_eq[OF assms(1)]
        momentum_move_eq volume_surge_eq earnings_catalyst_eq)

lemma claimed_rules_one_reason:
  "one_reason (claimed_rules d ! 0)" "one_reason (claimed_rules d ! 1)"
  "one_reason (claimed_rules d ! 2)" "one_reason (claimed_rules d ! 3)"
  "one_reason (claimed_rules d ! 4)" "one_reason (claimed_rules d ! 5)"
  "one_reason (claimed_rules d ! 6)"
  by (simp_all add: claimed_rules_def one_reason_def Let_def split: option.splits)

section \<open>Votes, direction and levels of a trade idea\<close>

lemma signals_votes:
  assumes "rsi d \<noteq> Some 0"
  shows "signals d = (count_list (claimed_votes d) Bull, count_list (claimed_votes d) Bear)"
  using assms
  by (cases "trend d")
     (auto simp: signals_def claimed_votes_def truthy_def Let_def split: option.splits)

lemma generate_trade_idea_direction:
  assumes "generate_trade_idea d sc rs = Inr ti"
  shows "direction ti = (if snd (signals d) < fst (signals d) then CALL
                         else if fst (signals d) < snd (signals d) then PUT else STRADDLE)"
  using assms by (auto simp: generate_trade_idea_def Let_def split: sum.splits)

lemma generate_trade_idea_claimed_direction:
  assumes "generate_trade_idea d sc rs = Inr ti" and "rsi d \<noteq> Some 0"
  shows "direction ti = claimed_direction d"
  using generate_trade_idea_direction[OF assms(1)] signals_votes[OF assms(2)]
  by (simp add: claimed_direction_def Let_def)

lemma calculate_entry_exit_total:
  assumes "rsi d \<noteq> None"
  shows "\<exists>ee. calculate_entry_exit d opts = Inr ee"
  using assms by (auto simp: calculate_entry_exit_def Let_def split: direction.splits)

lemma generate_trade_idea_total:
  assumes "rsi d \<noteq> None"
  shows "\<exists>ti. generate_trade_idea d sc rs = Inr ti"
  using calculate_entry_exit_total[OF assms, of "options d"]
  by (auto simp: generate_trade_idea_def Let_def)

lemma calculate_entry_exit_levels:
  assumes "calculate_entry_exit d (options d) = Inr ee"
  shows "ee_direction ee = stored_direction d
       \<and> (stock_entry ee, stock_target ee, stock_stop ee) = claimed_levels (stored_direction d) d"
  using assms
  by (auto simp: calculate_entry_exit_def claimed_levels_def stored_direction_def Let_def
           split: direction.splits option.splits)

lemma generate_trade_idea_levels:
  assumes "generate_trade_idea d sc rs = Inr ti"
  shows "ee_direction (entry_exit ti) = stored_direction d
       \<and> levels ti = claimed_levels (stored_direction d) d"
proof -
  from assms obtain ee where ee: "calculate_entry_exit d (options d) = Inr ee"
    and "entry_exit ti = ee"
    by (auto simp: generate_trade_idea_def Let_def split: sum.splits)
  then show ?thesis using calculate_entry_exit_levels[OF ee] by (simp add: levels_def)
qed

section \<open>Category lists\<close>

lemma earnings_plays_claimed:
  assumes "\<forall>r \<in> set rs. days_to_earnings r \<noteq> Some 0"
  shows "earnings_plays rs = claimed_earnings_plays rs"
  unfolding earnings_plays_def claimed_earnings_plays_def
  using assms by (intro filter_cong) (auto split: option.splits)

lemma momentum_plays_claimed:
  assumes "\<forall>r \<in> set rs. days_to_earnings r \<noteq> Some 0"
  shows "momentum_plays rs = claimed_momentum_plays rs"
  unfolding momentum_plays_def claimed_momentum_plays_def earnings_plays_claimed[OF assms] ..

lemma oversold_plays_claimed:
  assumes "\<forall>r \<in> set rs. days_to_earnings r \<noteq> Some 0 \<and> rsi r \<noteq> Some 0"
  shows "oversold_plays rs = claimed_oversold_plays rs"
proof -
  have e: "earnings_plays rs = claimed_earnings_plays rs"
    using assms by (intro earnings_plays_claimed) blast
  show ?thesis
    unfolding oversold_plays_def claimed_oversold_plays_def e
    using assms by (intro filter_cong) (auto simp: truthy_def split: option.splits)
qed

lemma demo_distinct:
  "old_result \<noteq> bear_result" "old_result \<noteq> dip_result" "bear_result \<noteq> dip_result"
  using demo_tickers by auto

lemma demo_fields:
  "days_to_earnings old_result = Some 0" "days_to_earnings bear_result = None"
  "days_to_earnings dip_result = None"
  "momentum_5d old_result = 20" "momentum_5d bear_result = - 9.09" "momentum_5d dip_result = - 59.9"
  "rsi old_result = Some 100" "rsi bear_result = Some 50" "rsi dip_result = Some 0"
  "earnings_date old_result = Some ''2024-01-16''" "price old_result = 24"
  by (simp_all add: old_result_def dip_result_def bear_result_def scored_def Let_def
      old_signal_def dip_signal_def bear_signal_def plain_signal_def)

lemma demo_categories:
  "earnings_plays [old_result, bear_result, dip_result] = []"
  "momentum_plays [old_result, bear_result, dip_result] = [old_result, bear_result, dip_result]"
  "oversold_plays [old_result, bear_result, dip_result] = []"
  by (simp_all add: earnings_plays_def momentum_plays_def oversold_plays_def demo_fields truthy_def)

lemma demo_claimed_categories:
  "claimed_earnings_plays [old_result, bear_result, dip_result] = [old_result]"
  "claimed_momentum_plays [old_result, bear_result, dip_result] = [bear_result, dip_result]"
  "claimed_oversold_plays [old_result, bear_result, dip_result] = [dip_result]"
  by (simp_all add: claimed_earnings_plays_def claimed_momentum_plays_def
      claimed_oversold_plays_def demo_fields demo_distinct demo_distinct[symmetric])

lemma demo_run:
  "\<exists>rep. run_research demo_world demo_config demo_universe = Inr rep
     \<and> all_results rep = [old_result, bear_result, dip_result]
     \<and> top_picks rep = [old_result, bear_result, dip_result]
     \<and> categories rep = \<lparr>cat_earnings_plays = [],
          cat_momentum_plays = [old_result, bear_result, dip_result],
          cat_oversold_plays = []\<rparr>
     \<and> map cal_earnings (earnings_calendar rep) = [[], [(''OLD'', 24, 6)], [], [], [], [], []]"
  by (simp add: run_research_def ai_stage_def demo_world_def demo_scan demo_sorted
      demo_categories build_earnings_calendar_def demo_fields demo_scores demo_tickers upt_rec)

lemma score_null_summary: "score_opportunity strong_null_signal cfg = Inl TypeError"
  by (simp add: scorer_defs strong_null_signal_def)

text \<open>
  Claim C2 says that the score is the sum of the contributions of section 4.2, the RSI
  rule giving 1.5 points at an RSI of 30 or less. \<open>DIP\<close> fell for thirteen days: its raw RSI
  is 0.04, which \<^verbatim>\<open>get_stock_data\<close> rounds to 0.0. \<^verbatim>\<open>score_opportunity\<close> tests \<^verbatim>\<open>if rsi:\<close>,
  which is false for 0.0, and returns 2 points and one reason; the rules of the
  specification give 3.5 points and the oversold reason as well.
\<close>

theorem zero_rsi_earns_no_points:
  "get_stock_data demo_market 0 ''DIP'' demo_config = Some dip_signal
   \<and> rsi dip_signal = Some 0
   \<and> score_opportunity dip_signal demo_config = Inr (2, [PctMove ChartDown 59.9])
   \<and> claimed_score dip_signal = 3.5
   \<and> claimed_reasons dip_signal = [PctMove ChartDown 59.9, OversoldRSI 0]"
  using get_dip score_dip
  by (simp add: claimed_score_def claimed_reasons_def claimed_rules_def dip_signal_def
      plain_signal_def default_sentiment_def Let_def)

text \<open>
  Claim C4 says that \<^verbatim>\<open>generate_trade_idea\<close> returns, for every signal, the direction of
  the vote tally, with a bullish vote for an RSI under 35. For \<open>DIP\<close> (RSI 0.0) the test
  \<^verbatim>\<open>rsi and rsi < 35\<close> is false: the function returns PUT on a tally of 0 to 1, where the
  claimed tally is 1 to 1 and the direction STRADDLE. For \<open>NEW\<close> (RSI null) the function
  returns nothing: it raises the type error of claim C10, where the claimed direction is
  CALL.
\<close>

theorem zero_rsi_casts_no_vote:
  "rsi dip_scored = Some 0
   \<and> generate_trade_idea dip_scored 2 [PctMove ChartDown 59.9]
       = Inr (demo_idea PUT Bearish [PctMove ChartDown 59.9] 19.95 20.75 19.55)
   \<and> claimed_votes dip_scored = [Bear, Abstain, Abstain, Bull]
   \<and> claimed_direction dip_scored = STRADDLE
   \<and> rsi new_scored = None
   \<and> generate_trade_idea new_scored 4 [VolumeX 3, PctMove Rocket 20] = Inl TypeError
   \<and> claimed_votes new_scored = [Bull, Abstain, Abstain, Abstain]
   \<and> claimed_direction new_scored = CALL"
  using idea_dip[where sc = 2 and rs = "[PctMove ChartDown 59.9]"]
    idea_new[where sc = 4 and rs = "[VolumeX 3, PctMove Rocket 20]"]
  by (simp add: dip_scored_def new_scored_def claimed_direction_def claimed_votes_def
      dip_signal_def new_signal_def plain_signal_def default_sentiment_def Let_def)

text \<open>
  Claim C5 says that the entry, target and stop follow the direction of the idea itself.
  For \<open>BEAR\<close> the vote gives PUT, but \<^verbatim>\<open>calculate_entry_exit\<close> reads the direction from
  \<^verbatim>\<open>data["trade_idea"]\<close>, which the scan loop sets only after the call: it finds no key,
  takes CALL and computes the CALL levels. The returned idea says PUT and carries an
  \<^verbatim>\<open>entry_exit\<close> that says CALL, with a target above and a stop below the price.
\<close>

theorem levels_follow_stored_direction:
  "generate_trade_idea bear_scored 3 [VolumeX 2.65, PctMove ChartDown 9.09]
     = Inr (demo_idea PUT Bearish [VolumeX 2.65, PctMove ChartDown 9.09] 19.9 20.7 19.5)
   \<and> direction (demo_idea PUT Bearish [VolumeX 2.65, PctMove ChartDown 9.09] 19.9 20.7 19.5) = PUT
   \<and> ee_direction (entry_exit
        (demo_idea PUT Bearish [VolumeX 2.65, PctMove ChartDown 9.09] 19.9 20.7 19.5)) = CALL
   \<and> levels (demo_idea PUT Bearish [VolumeX 2.65, PctMove ChartDown 9.09] 19.9 20.7 19.5)
       = (19.9, 20.7, 19.5)
   \<and> claimed_levels PUT bear_scored = (20.1, 19.3, 20.5)
   \<and> claimed_levels CALL bear_scored = (19.9, 20.7, 19.5)"
  using idea_bear[where sc = 3 and rs = "[VolumeX 2.65, PctMove ChartDown 9.09]"]
  by (simp add: bear_scored_def demo_idea_def levels_def claimed_levels_def bear_signal_def
      plain_signal_def py_round_unfold Let_def)

text \<open>
  Claim C6 says that \<^verbatim>\<open>earnings_plays\<close> holds exactly the results with
  \<^verbatim>\<open>days_to_earnings\<close> from 0 to 7. In the example run \<open>OLD\<close> has \<^verbatim>\<open>days_to_earnings\<close> 0: the test
  \<^verbatim>\<open>r.get('days_to_earnings') and 0 <= r['days_to_earnings'] <= 7\<close> is false for 0, so \<open>OLD\<close>
  is no earnings play and is a momentum play instead. The test \<^verbatim>\<open>r.get('rsi') and ...\<close> of
  the oversold plays likewise skips the RSI 0.0 of \<open>DIP\<close>.
\<close>

theorem earnings_today_is_no_earnings_play:
  "(\<exists>rep. run_research demo_world demo_config demo_universe = Inr rep
      \<and> all_results rep = [old_result, bear_result, dip_result])
   \<and> days_to_earnings old_result = Some 0
   \<and> earnings_plays [old_result, bear_result, dip_result] = []
   \<and> momentum_plays [old_result, bear_result, dip_result] = [old_result, bear_result, dip_result]
   \<and> claimed_earnings_plays [old_result, bear_result, dip_result] = [old_result]
   \<and> claimed_momentum_plays [old_result, bear_result, dip_result] = [bear_result, dip_result]
   \<and> rsi dip_result = Some 0
   \<and> oversold_plays [old_result, bear_result, dip_result] = []
   \<and> claimed_oversold_plays [old_result, bear_result, dip_result] = [dip_result]"
  using demo_run demo_fields demo_categories demo_claimed_categories by auto

section \<open>The options snapshot\<close>

lemma pick_expirations_eq:
  "pick_expirations td ds acc =
     (case fst acc of
        Some n \<Rightarrow> Some n
      | None \<Rightarrow> (case filter (\<lambda>e. 1 \<le> e - td) ds of n # _ \<Rightarrow> Some n | [] \<Rightarrow> None),
      case snd acc of
        Some w \<Rightarrow> Some w
      | None \<Rightarrow> (case filter (\<lambda>e. 5 \<le> e - td \<and> e - td \<le> 10) ds of
                   w # _ \<Rightarrow> Some w | [] \<Rightarrow> None))"
proof (induction ds arbitrary: acc)
  case Nil
  then show ?case by (cases acc) (auto split: option.splits)
next
  case (Cons e es)
  show ?case
    by (cases acc) (auto simp: Cons.IH Let_def split: option.splits list.splits)
qed

lemma target_expiration_chosen: "target_expiration td ds = chosen_expiration td ds"
  by (simp add: target_expiration_def pick_expirations_eq chosen_expiration_def
      weekly_expirations_def future_expirations_def split: list.splits)

lemma weekly_subset_future:
  "future_expirations td ds = [] \<Longrightarrow> weekly_expirations td ds = []"
  by (auto simp: future_expirations_def weekly_expirations_def filter_empty_conv)

lemma chosen_expiration_None:
  "chosen_expiration td ds = None \<longleftrightarrow> future_expirations td ds = []"
  using weekly_subset_future[of td ds]
  by (auto simp: chosen_expiration_def split: list.splits)

lemma chosen_expiration_future:
  assumes "chosen_expiration td ds = Some t"
  shows "t \<in> set (take 5 ds) \<and> 1 \<le> t - td"
proof (cases "weekly_expirations td ds")
  case Nil
  with assms obtain ns where "future_expirations td ds = t # ns"
    by (auto simp: chosen_expiration_def split: list.splits)
  then have "t \<in> set (future_expirations td ds)" by simp
  then show ?thesis by (simp add: future_expirations_def)
next
  case (Cons w ws)
  with assms have "t \<in> set (weekly_expirations td ds)"
    by (simp add: chosen_expiration_def)
  then show ?thesis by (simp add: weekly_expirations_def)
qed

text \<open>
  Claim C7, as amended. \<^verbatim>\<open>get_options_data\<close> returns a null snapshot if and only if the
  provider fails to list the expirations or to give the chain, no expiration is listed,
  none of the first five is in the future, or the call table or the put table of the
  chosen expiration is empty; it is populated exactly when both tables have a row.
\<close>

theorem null_snapshot_iff:
  "get_options_data td stk p cfg = None \<longleftrightarrow> null_snapshot td stk"
proof (cases "options_dates stk")
  case (Inl e)
  then show ?thesis by (simp add: get_options_data_def null_snapshot_def)
next
  case (Inr ds)
  show ?thesis
  proof (cases "chosen_expiration td ds")
    case None
    then have "future_expirations td ds = []" by (simp add: chosen_expiration_None)
    with Inr None show ?thesis
      by (simp add: get_options_data_def null_snapshot_def target_expiration_chosen)
  next
    case (Some t)
    then have f: "future_expirations td ds \<noteq> []"
      using chosen_expiration_None[of td ds] by simp
    from chosen_expiration_future[OF Some] have ne: "ds \<noteq> []" by auto
    show ?thesis
    proof (cases "chain_at stk t")
      case (Inl e)
      with Inr Some show ?thesis
        by (simp add: get_options_data_def null_snapshot_def target_expiration_chosen)
    next
      case (Inr ch)
      with \<open>options_dates stk = Inr ds\<close> Some f ne show ?thesis
        by (simp add: get_options_data_def null_snapshot_def target_expiration_chosen Let_def)
    qed
  qed
qed











lemmas option_defs = get_options_data_def target_expiration_def listed_stock_def quote_def
  atm_row_def avg_iv_def raw_expected_move_pct_def raw_expected_move_dollars_def
  call_suggestion_of_def put_suggestion_of_def notna_int_def py_int_def demo_config_def
  round_half_even_def py_round_unfold Let_def

lemma get_year_snapshot:
  "get_options_data 0 year_stock 10.01 demo_config = Some year_snapshot"
  by (simp add: option_defs year_stock_def year_snapshot_def)

lemma atm_nearest_to_rounded_price:
  "avg_iv 10.4 \<lparr>calls = [quote 10 1 0.2, quote 10.5 1 0.4],
                  puts = [quote 10 1 0.2, quote 10.5 1 0.4]\<rparr> = 0.2"
  by (simp add: avg_iv_def atm_row_def quote_def round_half_even_def Let_def)







text \<open>
  Claim C7 says that the snapshot is null only for an empty chain or when the call and
  the put table are both empty, and populated as soon as one side has a quote. A chain
  with one put and no call has the chosen expiration seven days out and one non-empty
  side, and \<^verbatim>\<open>get_options_data\<close> returns \<^verbatim>\<open>None\<close>: the source tests
  \<^verbatim>\<open>calls.empty or puts.empty\<close>.
\<close>

theorem one_sided_chain_is_null:
  "get_options_data 0 puts_only_stock 10 demo_config = None
   \<and> options_dates puts_only_stock = Inr [7]
   \<and> chosen_expiration 0 [7] = Some 7
   \<and> chain_at puts_only_stock 7 = Inr \<lparr>calls = [], puts = [quote 10 1 0.5]\<rparr>
   \<and> \<not> claimed_null_snapshot 0 puts_only_stock"
  by (simp add: get_options_data_def target_expiration_def claimed_null_snapshot_def
      future_expirations_def chosen_expiration_def weekly_expirations_def listed_stock_def
      puts_only_stock_def quote_def)

theorem null_snapshot_iff_witness:
  "get_options_data 0 year_stock 10.01 demo_config = Some year_snapshot
   \<and> \<not> null_snapshot 0 year_stock
   \<and> get_options_data 0 puts_only_stock 10 demo_config = None
   \<and> null_snapshot 0 puts_only_stock"
  using null_snapshot_iff[of 0 year_stock "10.01" demo_config]
    null_snapshot_iff[of 0 puts_only_stock 10 demo_config] get_year_snapshot
  by (simp add: null_snapshot_def future_expirations_def chosen_expiration_def
      weekly_expirations_def listed_stock_def puts_only_stock_def quote_def)

section \<open>The journal\<close>

lemma dedupe_insert_cases:
  "dedupe_insert J e = (if J \<noteq> [] \<and> created_at (hd J) = created_at e then e # tl J else e # J)"
  by (cases J) (simp_all add: dedupe_insert_def)

lemma journal_entry_created_at:
  "created_at (journal_entry_of jw out cfg)
     = (if generated_at out \<noteq> [] then generated_at out else jw_now jw)"
  by (simp add: journal_entry_of_def build_basic_research_journal_entry_def Let_def
      split: sum.splits option.splits)

lemma py_slice_to_Cons:
  "1 \<le> m \<Longrightarrow> py_slice_to (x # xs) m = x # take (nat m - 1) xs"
  by (cases "nat m") (auto simp: py_slice_to_def)

lemma append_research_journal_Cons:
  assumes "1 \<le> max_entries jw"
  shows "append_research_journal jw J out cfg
     = journal_entry_of jw out cfg
       # take (nat (max_entries jw) - 1)
           (if J \<noteq> [] \<and> created_at (hd J) = created_at (journal_entry_of jw out cfg)
            then tl J else J)"
  by (simp add: append_research_journal_def dedupe_insert_cases py_slice_to_Cons[OF assms])

lemma length_py_slice_to: "0 \<le> m \<Longrightarrow> length (py_slice_to xs m) \<le> nat m"
  by (simp add: py_slice_to_def)

lemma length_append_research_journal:
  "0 \<le> max_entries jw \<Longrightarrow> length (append_research_journal jw J out cfg) \<le> nat (max_entries jw)"
  by (simp add: append_research_journal_def length_py_slice_to)

lemma length_journal_runs:
  assumes "runs \<noteq> []" and "same_maximum m runs" and "0 \<le> m"
  shows "length (journal_runs J runs) \<le> nat m"
  using assms
proof (induction runs arbitrary: J)
  case Nil
  then show ?case by simp
next
  case (Cons run runs)
  obtain jw out cfg where run: "run = (jw, out, cfg)" by (cases run) auto
  have m: "max_entries jw = m" using Cons.prems(2) by (simp add: same_maximum_def run)
  show ?case
  proof (cases runs)
    case Nil
    then show ?thesis
      using length_append_research_journal[of jw J out cfg] Cons.prems(3) m by (simp add: run)
  next
    case (Cons a list)
    then have "length (journal_runs (append_research_journal jw J out cfg) runs) \<le> nat m"
      using Cons.IH[of "append_research_journal jw J out cfg"] Cons.prems
      by (simp add: same_maximum_def)
    then show ?thesis by (simp add: run)
  qed
qed

lemma newest_first_head:
  assumes "newest_first J" and "x \<in> set J"
  shows "created_at x \<le> created_at (hd J)"
  using assms by (cases J) (auto simp: newest_first_def)

lemma newest_first_dedupe_insert:
  assumes "newest_first J" and "J = [] \<or> created_at (hd J) \<le> created_at e"
  shows "newest_first (dedupe_insert J e)"
proof (cases J)
  case Nil
  then show ?thesis by (simp add: dedupe_insert_def newest_first_def)
next
  case (Cons h t)
  have le: "created_at x \<le> created_at e" if "x \<in> set J" for x
    using newest_first_head[OF assms(1) that] assms(2) Cons by auto
  have t: "newest_first t" using assms(1) Cons by (simp add: newest_first_def)
  show ?thesis
    using le t assms(1) Cons by (auto simp: dedupe_insert_def newest_first_def)
qed

lemma newest_first_slice: "newest_first J \<Longrightarrow> newest_first (py_slice_to J m)"
  by (auto simp: py_slice_to_def newest_first_def intro: sorted_wrt_take)

lemma newest_first_append_research_journal:
  assumes "newest_first J"
    and "J = [] \<or> created_at (hd J) \<le> created_at (journal_entry_of jw out cfg)"
  shows "newest_first (append_research_journal jw J out cfg)"
  unfolding append_research_journal_def
  by (intro newest_first_slice newest_first_dedupe_insert assms)

lemma newest_first_journal_runs:
  assumes "newest_first J" and "clock_forward J runs"
  shows "newest_first (journal_runs J runs)"
  using assms
proof (induction runs arbitrary: J)
  case Nil
  then show ?case by simp
next
  case (Cons run runs)
  obtain jw out cfg where run: "run = (jw, out, cfg)" by (cases run) auto
  have "newest_first (append_research_journal jw J out cfg)"
    using Cons.prems by (intro newest_first_append_research_journal) (simp_all add: run)
  then show ?case using Cons.IH Cons.prems(2) by (simp add: run)
qed

lemma rerun_absorbs:
  assumes "created_at (journal_entry_of jwa outa cfga) = created_at (journal_entry_of jwb outb cfgb)"
    and "max_entries jwa = max_entries jwb" and "0 \<le> max_entries jwb"
  shows "append_research_journal jwb (append_research_journal jwa J outa cfga) outb cfgb
     = append_research_journal jwb J outb cfgb"
proof (cases "max_entries jwb = 0")
  case True
  then show ?thesis by (simp add: append_research_journal_def py_slice_to_def)
next
  case False
  with assms have mb: "1 \<le> max_entries jwb" and ma: "1 \<le> max_entries jwa" by simp_all
  let ?ea = "journal_entry_of jwa outa cfga" and ?eb = "journal_entry_of jwb outb cfgb"
  define rest where "rest = (if J \<noteq> [] \<and> created_at (hd J) = created_at ?eb then tl J else J)"
  define j1 where "j1 = append_research_journal jwa J outa cfga"
  have J1: "j1 = ?ea # take (nat (max_entries jwb) - 1) rest"
    by (simp add: j1_def append_research_journal_Cons[OF ma] assms(1,2) rest_def)
  have R: "append_research_journal jwb J outb cfgb = ?eb # take (nat (max_entries jwb) - 1) rest"
    by (simp add: append_research_journal_Cons[OF mb] rest_def)
  have L: "append_research_journal jwb j1 outb cfgb
      = ?eb # take (nat (max_entries jwb) - 1) (take (nat (max_entries jwb) - 1) rest)"
    by (simp add: append_research_journal_Cons[OF mb] J1 assms(1))
  show ?thesis unfolding j1_def[symmetric] by (subst L, subst R) simp
qed

lemma rerun_same_entry:
  assumes "journal_entry_of jwa outa cfga = journal_entry_of jwb outb cfgb"
    and "max_entries jwa = max_entries jwb" and "0 \<le> max_entries jwb"
  shows "append_research_journal jwb (append_research_journal jwa J outa cfga) outb cfgb
     = append_research_journal jwa J outa cfga"
proof -
  have "append_research_journal jwb J outb cfgb = append_research_journal jwa J outa cfga"
    by (simp add: append_research_journal_def assms(1,2))
  then show ?thesis using rerun_absorbs[OF _ assms(2,3), of outa cfga outb cfgb J] assms(1)
    by simp
qed

lemma rerun_one_entry_at:
  assumes "created_at (journal_entry_of jwa outa cfga) = created_at (journal_entry_of jwb outb cfgb)"
    and "1 \<le> max_entries jwa" and "1 \<le> max_entries jwb"
    and "created_at (journal_entry_of jwb outb cfgb) \<notin> created_at ` set (tl J)"
  shows "length (filter (\<lambda>e. created_at e = created_at (journal_entry_of jwb outb cfgb))
           (append_research_journal jwb (append_research_journal jwa J outa cfga) outb cfgb)) = 1
       \<and> length (append_research_journal jwb (append_research_journal jwa J outa cfga) outb cfgb)
           \<le> length (append_research_journal jwa J outa cfga)"
proof -
  let ?e1 = "journal_entry_of jwa outa cfga" and ?e2 = "journal_entry_of jwb outb cfgb"
  let ?t = "created_at ?e2"
  have t1: "created_at ?e1 = ?t" by (rule assms(1))
  define rest where "rest = (if J \<noteq> [] \<and> created_at (hd J) = ?t then tl J else J)"
  have fresh: "?t \<notin> created_at ` set rest"
  proof (cases J)
    case Nil
    then show ?thesis by (simp add: rest_def)
  next
    case (Cons h tl')
    then show ?thesis using assms(4) by (auto simp: rest_def)
  qed
  define j1 where "j1 = append_research_journal jwa J outa cfga"
  have J1: "j1 = ?e1 # take (nat (max_entries jwa) - 1) rest"
    by (simp add: j1_def append_research_journal_Cons[OF assms(2)] t1 rest_def)
  have J2: "append_research_journal jwb j1 outb cfgb
      = ?e2 # take (nat (max_entries jwb) - 1) (take (nat (max_entries jwa) - 1) rest)"
    by (simp add: append_research_journal_Cons[OF assms(3)] J1 t1)
  have "x \<in> set (take n (take k rest)) \<Longrightarrow> created_at x \<noteq> ?t" for x n k
    using fresh by (metis image_eqI in_set_takeD)
  then have "filter (\<lambda>e. created_at e = ?t)
      (take (nat (max_entries jwb) - 1) (take (nat (max_entries jwa) - 1) rest)) = []"
    by (simp add: filter_empty_conv)
  then have one: "length (filter (\<lambda>e. created_at e = ?t)
      (append_research_journal jwb j1 outb cfgb)) = 1"
    unfolding J2 by simp
  have le: "length (append_research_journal jwb j1 outb cfgb) \<le> length j1"
    by (subst J2, subst J1) simp
  show ?thesis using one le by (simp add: j1_def)
qed

lemmas journal_defs = append_research_journal_def journal_entry_of_def dedupe_insert_def
  build_basic_research_journal_entry_def report_at_def entry_at_def quiet_journal_world_def
  max_entries_def py_slice_to_def demo_config_def Let_def

lemma deep_duplicate_run:
  "append_research_journal (quiet_journal_world None)
     (append_research_journal (quiet_journal_world None)
        [entry_at ''2024-01-16T19:00:00'', entry_at ''2024-01-15T19:00:00'']
        (report_at ''2024-01-15T19:00:00'') demo_config)
     (report_at ''2024-01-15T19:00:00'') demo_config
   = [entry_at ''2024-01-15T19:00:00'', entry_at ''2024-01-16T19:00:00'',
      entry_at ''2024-01-15T19:00:00'']"
  by (simp add: journal_defs)

lemmas narrating_defs = journal_defs narrating_journal_world_def noted_entry_def

text \<open>
  Claim C3 says that, from every journal, two runs with the same \<^verbatim>\<open>generated_at\<close> leave
  exactly one entry for that timestamp. The de-duplication looks at the head only: when
  the journal already holds the timestamp below a newer head, both the old entry and the
  new one stay.
\<close>

theorem rerun_keeps_deeper_duplicate:
  "length (filter (\<lambda>e. created_at e = ''2024-01-15T19:00:00'')
     (append_research_journal (quiet_journal_world None)
        (append_research_journal (quiet_journal_world None)
           [entry_at ''2024-01-16T19:00:00'', entry_at ''2024-01-15T19:00:00'']
           (report_at ''2024-01-15T19:00:00'') demo_config)
        (report_at ''2024-01-15T19:00:00'') demo_config)) = 2"
  unfolding deep_duplicate_run by (simp add: entry_at_def)

text \<open>
  Claim C3, as amended. For every journal, an entry whose \<^verbatim>\<open>created_at\<close> equals that of
  the head replaces the head, and any other entry is put in front. The \<^verbatim>\<open>created_at\<close> of
  a run's entry is the report's \<^verbatim>\<open>generated_at\<close>, or the clock of the run when that is
  empty. When two runs in a row give entries with the same \<^verbatim>\<open>created_at\<close> and have the
  same maximum, not negative, the journal after the second run is the one that the second
  run alone would have stored from the journal found: the second run replaces the head
  that the first one wrote, with its own narrative, and adds nothing; when the two entries
  are equal the journal stays as the first run left it. With maxima of at least one, and
  the timestamp nowhere below the head of the journal found, exactly one entry carries the
  timestamp after the two runs.
\<close>

theorem journal_rerun_idempotent:
  "dedupe_insert J e = (if J \<noteq> [] \<and> created_at (hd J) = created_at e then e # tl J else e # J)
   \<and> created_at (journal_entry_of jw out cfg)
       = (if generated_at out \<noteq> [] then generated_at out else jw_now jw)
   \<and> (created_at (journal_entry_of jwa outa cfga) = created_at (journal_entry_of jwb outb cfgb)
        \<and> max_entries jwa = max_entries jwb \<and> 0 \<le> max_entries jwb \<longrightarrow>
        append_research_journal jwb (append_research_journal jwa J outa cfga) outb cfgb
          = append_research_journal jwb J outb cfgb)
   \<and> (journal_entry_of jwa outa cfga = journal_entry_of jwb outb cfgb
        \<and> max_entries jwa = max_entries jwb \<and> 0 \<le> max_entries jwb \<longrightarrow>
        append_research_journal jwb (append_research_journal jwa J outa cfga) outb cfgb
          = append_research_journal jwa J outa cfga)
   \<and> (created_at (journal_entry_of jwa outa cfga) = created_at (journal_entry_of jwb outb cfgb)
        \<and> 1 \<le> max_entries jwa \<and> 1 \<le> max_entries jwb
        \<and> created_at (journal_entry_of jwb outb cfgb) \<notin> created_at ` set (tl J) \<longrightarrow>
        length (filter (\<lambda>e. created_at e = created_at (journal_entry_of jwb outb cfgb))
           (append_research_journal jwb (append_research_journal jwa J outa cfga) outb cfgb)) = 1
      \<and> length (append_research_journal jwb (append_research_journal jwa J outa cfga) outb cfgb)
           \<le> length (append_research_journal jwa J outa cfga))"
proof (intro conjI impI)
  show "dedupe_insert J e
      = (if J \<noteq> [] \<and> created_at (hd J) = created_at e then e # tl J else e # J)"
    by (rule dedupe_insert_cases)
  show "created_at (journal_entry_of jw out cfg)
      = (if generated_at out \<noteq> [] then generated_at out else jw_now jw)"
    by (rule journal_entry_created_at)
next
  assume "created_at (journal_entry_of jwa outa cfga) = created_at (journal_entry_of jwb outb cfgb)
        \<and> max_entries jwa = max_entries jwb \<and> 0 \<le> max_entries jwb"
  then show "append_research_journal jwb (append_research_journal jwa J outa cfga) outb cfgb
          = append_research_journal jwb J outb cfgb"
    by (intro rerun_absorbs) simp_all
next
  assume "journal_entry_of jwa outa cfga = journal_entry_of jwb outb cfgb
        \<and> max_entries jwa = max_entries jwb \<and> 0 \<le> max_entries jwb"
  then show "append_research_journal jwb (append_research_journal jwa J outa cfga) outb cfgb
          = append_research_journal jwa J outa cfga"
    by (intro rerun_same_entry) simp_all
next
  assume a: "created_at (journal_entry_of jwa outa cfga) = created_at (journal_entry_of jwb outb cfgb)
        \<and> 1 \<le> max_entries jwa \<and> 1 \<le> max_entries jwb
        \<and> created_at (journal_entry_of jwb outb cfgb) \<notin> created_at ` set (tl J)"
  have both: "length (filter (\<lambda>e. created_at e = created_at (journal_entry_of jwb outb cfgb))
           (append_research_journal jwb (append_research_journal jwa J outa cfga) outb cfgb)) = 1
       \<and> length (append_research_journal jwb (append_research_journal jwa J outa cfga) outb cfgb)
           \<le> length (append_research_journal jwa J outa cfga)"
    using a by (intro rerun_one_entry_at) simp_all
  from both show "length (filter (\<lambda>e. created_at e = created_at (journal_entry_of jwb outb cfgb))
           (append_research_journal jwb (append_research_journal jwa J outa cfga) outb cfgb)) = 1"
    by (rule conjunct1)
  from both show "length (append_research_journal jwb (append_research_journal jwa J outa cfga) outb cfgb)
           \<le> length (append_research_journal jwa J outa cfga)"
    by (rule conjunct2)
qed

theorem journal_rerun_idempotent_witness:
  "dedupe_insert [entry_at ''2024-01-15T19:00:00'', entry_at ''2024-01-14T19:00:00'']
       (entry_at ''2024-01-16T19:00:00'')
     = [entry_at ''2024-01-16T19:00:00'', entry_at ''2024-01-15T19:00:00'',
        entry_at ''2024-01-14T19:00:00'']
   \<and> created_at (journal_entry_of (narrating_journal_world ''calm'')
         (report_at ''2024-01-16T19:00:00'') demo_config) = ''2024-01-16T19:00:00''
   \<and> created_at (journal_entry_of (narrating_journal_world ''mixed'')
         (report_at ''2024-01-16T19:00:00'') demo_config) = ''2024-01-16T19:00:00''
   \<and> max_entries (narrating_journal_world ''calm'') = 30
   \<and> max_entries (narrating_journal_world ''mixed'') = 30
   \<and> ''2024-01-16T19:00:00''
        \<notin> created_at ` set (tl [entry_at ''2024-01-15T19:00:00'', entry_at ''2024-01-14T19:00:00''])
   \<and> append_research_journal (narrating_journal_world ''calm'')
        [entry_at ''2024-01-15T19:00:00'', entry_at ''2024-01-14T19:00:00'']
        (report_at ''2024-01-16T19:00:00'') demo_config
      = [noted_entry ''2024-01-16T19:00:00'' ''calm'', entry_at ''2024-01-15T19:00:00'',
         entry_at ''2024-01-14T19:00:00'']
   \<and> append_research_journal (narrating_journal_world ''mixed'')
        (append_research_journal (narrating_journal_world ''calm'')
           [entry_at ''2024-01-15T19:00:00'', entry_at ''2024-01-14T19:00:00'']
           (report_at ''2024-01-16T19:00:00'') demo_config)
        (report_at ''2024-01-16T19:00:00'') demo_config
      = [noted_entry ''2024-01-16T19:00:00'' ''mixed'', entry_at ''2024-01-15T19:00:00'',
         entry_at ''2024-01-14T19:00:00'']
   \<and> append_research_journal (narrating_journal_world ''calm'')
        (append_research_journal (narrating_journal_world ''calm'')
           [entry_at ''2024-01-15T19:00:00'', entry_at ''2024-01-14T19:00:00'']
           (report_at ''2024-01-16T19:00:00'') demo_config)
        (report_at ''2024-01-16T19:00:00'') demo_config
      = [noted_entry ''2024-01-16T19:00:00'' ''calm'', entry_at ''2024-01-15T19:00:00'',
         entry_at ''2024-01-14T19:00:00'']
   \<and> length (filter (\<lambda>e. created_at e = ''2024-01-16T19:00:00'')
        (append_research_journal (narrating_journal_world ''mixed'')
           (append_research_journal (narrating_journal_world ''calm'')
              [entry_at ''2024-01-15T19:00:00'', entry_at ''2024-01-14T19:00:00'']
              (report_at ''2024-01-16T19:00:00'') demo_config)
           (report_at ''2024-01-16T19:00:00'') demo_config)) = 1"
proof -
  let ?J = "[entry_at ''2024-01-15T19:00:00'', entry_at ''2024-01-14T19:00:00'']"
  let ?out = "report_at ''2024-01-16T19:00:00''"
  let ?a = "narrating_journal_world ''calm''" and ?b = "narrating_journal_world ''mixed''"
  have ca: "created_at (journal_entry_of ?a ?out demo_config) = ''2024-01-16T19:00:00''"
    and cb: "created_at (journal_entry_of ?b ?out demo_config) = ''2024-01-16T19:00:00''"
    by (simp_all add: narrating_defs)
  have m: "max_entries ?a = 30" "max_entries ?b = 30"
    by (simp_all add: max_entries_def narrating_journal_world_def)
  have fresh: "''2024-01-16T19:00:00'' \<notin> created_at ` set (tl ?J)"
    by (simp add: entry_at_def)
  have first: "append_research_journal ?a ?J ?out demo_config
      = [noted_entry ''2024-01-16T19:00:00'' ''calm'', entry_at ''2024-01-15T19:00:00'',
         entry_at ''2024-01-14T19:00:00'']"
    by (simp add: narrating_defs)
  have alone: "append_research_journal ?b ?J ?out demo_config
      = [noted_entry ''2024-01-16T19:00:00'' ''mixed'', entry_at ''2024-01-15T19:00:00'',
         entry_at ''2024-01-14T19:00:00'']"
    by (simp add: narrating_defs)
  have second: "append_research_journal ?b (append_research_journal ?a ?J ?out demo_config)
        ?out demo_config = append_research_journal ?b ?J ?out demo_config"
    by (rule journal_rerun_idempotent[where J = ?J and jwa = ?a and jwb = ?b and outa = ?out
          and outb = ?out and cfga = demo_config and cfgb = demo_config,
          THEN conjunct2, THEN conjunct2, THEN conjunct1, THEN mp])
       (simp add: ca cb m)
  have same: "append_research_journal ?a (append_research_journal ?a ?J ?out demo_config)
        ?out demo_config = append_research_journal ?a ?J ?out demo_config"
    by (rule journal_rerun_idempotent[where J = ?J and jwa = ?a and jwb = ?a and outa = ?out
          and outb = ?out and cfga = demo_config and cfgb = demo_config,
          THEN conjunct2, THEN conjunct2, THEN conjunct2, THEN conjunct1, THEN mp])
       (simp add: m)
  have one: "length (filter (\<lambda>e. created_at e = created_at (journal_entry_of ?b ?out demo_config))
        (append_research_journal ?b (append_research_journal ?a ?J ?out demo_config)
           ?out demo_config)) = 1"
    by (rule journal_rerun_idempotent[where J = ?J and jwa = ?a and jwb = ?b and outa = ?out
          and outb = ?out and cfga = demo_config and cfgb = demo_config,
          THEN conjunct2, THEN conjunct2, THEN conjunct2, THEN conjunct2, THEN mp,
          THEN conjunct1])
       (simp add: ca cb m entry_at_def)
  have d: "dedupe_insert ?J (entry_at ''2024-01-16T19:00:00'')
      = [entry_at ''2024-01-16T19:00:00'', entry_at ''2024-01-15T19:00:00'',
         entry_at ''2024-01-14T19:00:00'']"
    by (simp add: dedupe_insert_def entry_at_def)
  have two: "append_research_journal ?b (append_research_journal ?a ?J ?out demo_config)
        ?out demo_config
      = [noted_entry ''2024-01-16T19:00:00'' ''mixed'', entry_at ''2024-01-15T19:00:00'',
         entry_at ''2024-01-14T19:00:00'']"
    by (simp only: second alone)
  have twice: "append_research_journal ?a (append_research_journal ?a ?J ?out demo_config)
        ?out demo_config
      = [noted_entry ''2024-01-16T19:00:00'' ''calm'', entry_at ''2024-01-15T19:00:00'',
         entry_at ''2024-01-14T19:00:00'']"
    by (subst same) (rule first)
  have cnt: "length (filter (\<lambda>e. created_at e = ''2024-01-16T19:00:00'')
        (append_research_journal ?b (append_research_journal ?a ?J ?out demo_config)
           ?out demo_config)) = 1"
    using one by (simp only: cb)
  show ?thesis
    by (intro conjI) (fact d ca cb m fresh first two twice cnt)+
qed


text \<open>
  Claim C9 says that after every run, from any journal, the stored journal is ordered
  newest first and no longer than the configured maximum. The persister never sorts: a
  journal found out of order stays out of order behind the new entry. And a negative
  maximum cuts from the end: with \<open>-1\<close> a journal of three entries is stored with three.
\<close>

theorem unsorted_journal_stays_unsorted:
  "\<not> newest_first (append_research_journal (quiet_journal_world None)
        [entry_at ''2024-01-14T19:00:00'', entry_at ''2024-01-15T19:00:00'']
        (report_at ''2024-01-16T19:00:00'') demo_config)
   \<and> length (append_research_journal (quiet_journal_world (Some (- 1)))
        [entry_at ''2024-01-14T19:00:00'', entry_at ''2024-01-13T19:00:00'',
         entry_at ''2024-01-12T19:00:00'']
        (report_at ''2024-01-16T19:00:00'') demo_config) = 3
   \<and> max_entries (quiet_journal_world (Some (- 1))) = - 1"
  by (simp add: journal_defs newest_first_def)

text \<open>
  Claim C9, as amended. With a configured maximum that is not negative, the journal stored
  by a run has at most that many entries, and so has the journal after any positive number
  of runs with that maximum. A run that finds the journal ordered newest first and carries
  a timestamp not older than its head stores a journal ordered newest first, and so does
  any number of runs while the clock does not run backwards.
\<close>

theorem journal_bounded_and_newest_first:
  "(0 \<le> max_entries jw \<longrightarrow>
      length (append_research_journal jw J out cfg) \<le> nat (max_entries jw))
   \<and> (runs \<noteq> [] \<and> same_maximum m runs \<and> 0 \<le> m \<longrightarrow> length (journal_runs J runs) \<le> nat m)
   \<and> (newest_first J
        \<and> (J = [] \<or> created_at (hd J) \<le> created_at (journal_entry_of jw out cfg)) \<longrightarrow>
        newest_first (append_research_journal jw J out cfg))
   \<and> (newest_first J \<and> clock_forward J runs \<longrightarrow> newest_first (journal_runs J runs))"
  using length_append_research_journal length_journal_runs newest_first_append_research_journal
    newest_first_journal_runs by blast


theorem journal_bounded_and_newest_first_witness:
  "0 \<le> max_entries (quiet_journal_world (Some 2))
   \<and> newest_first [entry_at ''2024-01-15T19:00:00'', entry_at ''2024-01-14T19:00:00'']
   \<and> same_maximum 2 [(quiet_journal_world (Some 2), report_at ''2024-01-16T19:00:00'', demo_config),
                      (quiet_journal_world (Some 2), report_at ''2024-01-17T19:00:00'', demo_config)]
   \<and> clock_forward [entry_at ''2024-01-15T19:00:00'', entry_at ''2024-01-14T19:00:00'']
        [(quiet_journal_world (Some 2), report_at ''2024-01-16T19:00:00'', demo_config),
         (quiet_journal_world (Some 2), report_at ''2024-01-17T19:00:00'', demo_config)]
   \<and> journal_runs [entry_at ''2024-01-15T19:00:00'', entry_at ''2024-01-14T19:00:00'']
        [(quiet_journal_world (Some 2), report_at ''2024-01-16T19:00:00'', demo_config),
         (quiet_journal_world (Some 2), report_at ''2024-01-17T19:00:00'', demo_config)]
      = [entry_at ''2024-01-17T19:00:00'', entry_at ''2024-01-16T19:00:00'']
   \<and> length (journal_runs [entry_at ''2024-01-15T19:00:00'', entry_at ''2024-01-14T19:00:00'']
        [(quiet_journal_world (Some 2), report_at ''2024-01-16T19:00:00'', demo_config),
         (quiet_journal_world (Some 2), report_at ''2024-01-17T19:00:00'', demo_config)]) \<le> nat 2
   \<and> newest_first (journal_runs [entry_at ''2024-01-15T19:00:00'', entry_at ''2024-01-14T19:00:00'']
        [(quiet_journal_world (Some 2), report_at ''2024-01-16T19:00:00'', demo_config),
         (quiet_journal_world (Some 2), report_at ''2024-01-17T19:00:00'', demo_config)])"
proof -
  let ?J = "[entry_at ''2024-01-15T19:00:00'', entry_at ''2024-01-14T19:00:00'']"
  let ?runs = "[(quiet_journal_world (Some 2), report_at ''2024-01-16T19:00:00'', demo_config),
                (quiet_journal_world (Some 2), report_at ''2024-01-17T19:00:00'', demo_config)]"
  have m: "0 \<le> max_entries (quiet_journal_world (Some 2))"
    by (simp add: max_entries_def quiet_journal_world_def)
  have nf: "newest_first ?J" by (simp add: newest_first_def entry_at_def)
  have sm: "same_maximum 2 ?runs"
    by (simp add: same_maximum_def max_entries_def quiet_journal_world_def)
  have cf: "clock_forward ?J ?runs" by (simp add: journal_defs)
  have jr: "journal_runs ?J ?runs
      = [entry_at ''2024-01-17T19:00:00'', entry_at ''2024-01-16T19:00:00'']"
    by (simp add: journal_defs)
  show ?thesis
    using journal_bounded_and_newest_first[where J = ?J and runs = ?runs and m = 2
        and jw = "quiet_journal_world (Some 2)"]
      m nf sm cf jr
    by simp
qed

end
